theory Spec2Isabelle
  imports Main "HOL-Library.AList" "HOL-Library.Sublist"
begin

section \<open>Python values used by the device-control layer\<close>

text \<open>
  Exceptions are values. Only \<open>RuntimeError\<close> carries its argument, because the focuser
  raises it with the offending response line (\<open>raise RuntimeError(response)\<close>); the other
  classes are told apart by class alone. In Python 3 \<open>UnicodeDecodeError\<close> and
  \<open>UnicodeEncodeError\<close> are subclasses of \<open>ValueError\<close>, not of \<open>RuntimeError\<close>, so an
  \<open>except RuntimeError\<close> clause catches exactly the first constructor below.
\<close>

datatype py_error =
    RuntimeError string
  | ValueError
  | AssertionError
  | TypeError
  | KeyError
  | NameError
  | AttributeError
  | NotImplementedError
  | SerialException
  | SerialTimeoutException
  | UnicodeDecodeError
  | UnicodeEncodeError

text \<open>
  A \<open>dict\<close> with string keys and values, as an association list in insertion order:
  \<open>d[k] = v\<close> is \<open>AList.update k v d\<close> (an existing key keeps its place, a new one is
  appended) and a lookup is \<open>map_of d k\<close>.
\<close>

type_synonym dict = "(string \<times> string) list"

text \<open>
  \<open>str.isspace\<close> on ASCII text: tab, line feed, vertical tab, form feed, carriage return,
  the four separators 0x1C..0x1F and the space.
\<close>

definition py_isspace :: "char \<Rightarrow> bool" where
  "py_isspace c = (c \<in> set [CHR 0x09, CHR 0x0A, CHR 0x0B, CHR 0x0C, CHR 0x0D,
                              CHR 0x1C, CHR 0x1D, CHR 0x1E, CHR 0x1F, CHR 0x20])"

text \<open>\<open>s.strip()\<close>\<close>

definition strip :: "string \<Rightarrow> string" where
  "strip s = rev (dropWhile py_isspace (rev (dropWhile py_isspace s)))"

text \<open>\<open>s.split(d)\<close> with a one-character separator: every occurrence separates.\<close>

fun split_on :: "char \<Rightarrow> string \<Rightarrow> string list" where
  "split_on d [] = [[]]"
| "split_on d (c # cs) =
     (if c = d then [] # split_on d cs
      else (case split_on d cs of
              [] \<Rightarrow> [[c]]
            | w # ws \<Rightarrow> (c # w) # ws))"

text \<open>
  \<open>str(b, encoding='ascii')\<close> succeeds when every byte is below 128, and
  \<open>s.encode('ascii')\<close> likewise; a \<open>char\<close> is a byte and \<open>digit7\<close> is its top bit.
\<close>

definition is_ascii :: "string \<Rightarrow> bool" where
  "is_ascii s = list_all (\<lambda>c. \<not> digit7 c) s"

subsection \<open>Integers and floats read from text, integers written as text\<close>

definition isdigit :: "char \<Rightarrow> bool" where
  "isdigit c = (c \<in> set ''0123456789'')"

text \<open>
  The \<open>digitpart\<close> of Python's numeric grammar (Python 3.6 and later): digits, with single
  underscores allowed between two digits.
\<close>

fun digitpart_from :: "bool \<Rightarrow> string \<Rightarrow> bool" where
  "digitpart_from after_digit [] = after_digit"
| "digitpart_from after_digit (c # cs) =
     (if isdigit c then digitpart_from True cs
      else if c = CHR ''_'' \<and> after_digit then digitpart_from False cs
      else False)"

definition digitpart :: "string \<Rightarrow> bool" where
  "digitpart s = digitpart_from False s"

definition digit_val :: "char \<Rightarrow> int" where
  "digit_val c = int (length (takeWhile (\<lambda>d. d \<noteq> c) ''0123456789''))"

definition digits_value :: "string \<Rightarrow> int" where
  "digits_value s = foldl (\<lambda>n c. 10 * n + digit_val c) 0 (filter isdigit s)"

definition drop_sign :: "string \<Rightarrow> bool \<times> string" where
  "drop_sign s =
     (case s of
        [] \<Rightarrow> (False, [])
      | c # cs \<Rightarrow> if c = CHR ''-'' then (True, cs)
                  else if c = CHR ''+'' then (False, cs)
                  else (False, s))"

text \<open>\<open>int(s)\<close> for a string \<open>s\<close>; \<open>None\<close> stands for the \<open>ValueError\<close> it raises.\<close>

definition py_int :: "string \<Rightarrow> int option" where
  "py_int s =
     (case drop_sign (strip s) of
        (neg, ds) \<Rightarrow>
          if digitpart ds
          then Some (if neg then - digits_value ds else digits_value ds)
          else None)"

text \<open>
  A Python float is kept as the literal it was converted from: the binary64 value is not
  computed, only whether \<open>float(s)\<close> accepts the text.
\<close>

datatype pyfloat = PyFloat string

definition lower :: "string \<Rightarrow> string" where
  "lower s =
     map (\<lambda>c. case map_of (zip ''ABCDEFGHIJKLMNOPQRSTUVWXYZ'' ''abcdefghijklmnopqrstuvwxyz'') c of
                None \<Rightarrow> c
              | Some l \<Rightarrow> l) s"

definition split_first :: "(char \<Rightarrow> bool) \<Rightarrow> string \<Rightarrow> string \<times> string option" where
  "split_first P s =
     (case dropWhile (\<lambda>c. \<not> P c) s of
        [] \<Rightarrow> (s, None)
      | _ # rest \<Rightarrow> (takeWhile (\<lambda>c. \<not> P c) s, Some rest))"

definition float_number :: "string \<Rightarrow> bool" where
  "float_number s =
     (case split_first (\<lambda>c. c = CHR ''e'' \<or> c = CHR ''E'') s of
        (mant, ex) \<Rightarrow>
          (case split_first (\<lambda>c. c = CHR ''.'') mant of
             (ip, None) \<Rightarrow> digitpart ip
           | (ip, Some fp) \<Rightarrow>
               (ip = [] \<or> digitpart ip) \<and> (fp = [] \<or> digitpart fp) \<and> \<not> (ip = [] \<and> fp = []))
          \<and> (case ex of
                None \<Rightarrow> True
              | Some e \<Rightarrow> digitpart (snd (drop_sign e))))"

text \<open>\<open>float(s)\<close> for a string \<open>s\<close>; \<open>None\<close> stands for the \<open>ValueError\<close> it raises.\<close>

definition py_float :: "string \<Rightarrow> pyfloat option" where
  "py_float s =
     (let t = strip s; u = snd (drop_sign t) in
      if lower u \<in> set [''inf'', ''infinity'', ''nan''] \<or> float_number u
      then Some (PyFloat t) else None)"

text \<open>\<open>str(n)\<close> and the format specifications \<open>{:1d}\<close>, \<open>{:06d}\<close> of an integer.\<close>

function digits_of :: "int \<Rightarrow> string" where
  "digits_of n =
     (if n < 10 then [''0123456789'' ! nat n]
      else digits_of (n div 10) @ [''0123456789'' ! nat (n mod 10)])"
  by pat_completeness auto
termination
  by (relation "measure nat") auto

declare digits_of.simps [simp del]

text \<open>\<open>digits_of\<close> is only applied to numbers that are not negative.\<close>

definition str_int :: "int \<Rightarrow> string" where
  "str_int i = (if i < 0 then CHR ''-'' # digits_of (- i) else digits_of i)"

definition fmt_1d :: "int \<Rightarrow> string" where
  "fmt_1d i = str_int i"

definition fmt_06d :: "int \<Rightarrow> string" where
  "fmt_06d i =
     (if i < 0
      then CHR ''-'' # replicate (5 - length (digits_of (- i))) CHR ''0'' @ digits_of (- i)
      else replicate (6 - length (digits_of i)) CHR ''0'' @ digits_of i)"

section \<open>The serial port of the focuser\<close>

text \<open>
  The \<open>serial.Serial\<close> object behind \<open>self._serial_port\<close>, opened with \<open>timeout=1.0\<close>,
  talking to a scripted device. \<open>written\<close> holds the commands written so far, oldest first;
  \<open>in_buffer\<close> the lines received and not yet read; \<open>replies\<close> the lines the device will
  send in answer to each further command, one group of lines per command. A \<open>readline()\<close> on
  an empty buffer times out and returns the empty byte string. A device that answers without
  end is outside this model: its script is finite.
\<close>

record serial_dev =
  written :: "string list"
  in_buffer :: "string list"
  replies :: "string list list"

definition reset_output_buffer :: "serial_dev \<Rightarrow> serial_dev" where
  "reset_output_buffer p = p"

definition reset_input_buffer :: "serial_dev \<Rightarrow> serial_dev" where
  "reset_input_buffer p = p\<lparr>in_buffer := []\<rparr>"

definition port_write :: "string \<Rightarrow> serial_dev \<Rightarrow> serial_dev" where
  "port_write bytes p =
     (case replies p of
        [] \<Rightarrow> p\<lparr>written := written p @ [bytes]\<rparr>
      | r # rs \<Rightarrow> p\<lparr>written := written p @ [bytes], in_buffer := in_buffer p @ r, replies := rs\<rparr>)"

definition readline :: "serial_dev \<Rightarrow> string \<times> serial_dev" where
  "readline p =
     (case in_buffer p of
        [] \<Rightarrow> ([], p)
      | l # ls \<Rightarrow> (l, p\<lparr>in_buffer := ls\<rparr>))"

text \<open>\<open>str(self._serial_port.readline(), encoding='ascii').strip()\<close>\<close>

definition read_response :: "serial_dev \<Rightarrow> (py_error + string) \<times> serial_dev" where
  "read_response p =
     (case readline p of
        (l, p') \<Rightarrow> if is_ascii l then (Inr (strip l), p') else (Inl UnicodeDecodeError, p'))"

text \<open>
  The \<open>while response != 'END'\<close> loop of \<open>_send_command\<close>, entered with the first body
  line already read. \<open>key, value = (item.strip() for item in response.split('='))\<close> raises
  \<open>ValueError\<close> unless the split yields exactly two items.
\<close>

function info_loop :: "string \<Rightarrow> dict \<Rightarrow> serial_dev \<Rightarrow> (py_error + dict) \<times> serial_dev" where
  "info_loop response info p =
     (if response \<noteq> ''END'' then
        (case map strip (split_on CHR ''='' response) of
           [key, val] \<Rightarrow>
             (case read_response p of
                (Inl e, p') \<Rightarrow> (Inl e, p')
              | (Inr response', p') \<Rightarrow> info_loop response' (AList.update key val info) p')
         | _ \<Rightarrow> (Inl ValueError, p))
      else (Inr info, p))"
  by pat_completeness auto
termination
proof (relation "measure (\<lambda>(response, info, p).
          2 * length (in_buffer p) + (if length (split_on CHR ''='' response) = 2 then 1 else 0))",
       goal_cases)
  case 1
  show ?case by simp
next
  case (2 response info p key ws val ws' r p' response')
  from 2 have "length (map strip (split_on CHR ''='' response)) = 2" by simp
  then have two: "length (split_on CHR ''='' response) = 2" by simp
  from 2 have rd: "read_response p = (Inr response', p')" by simp
  show ?case
  proof (cases "in_buffer p")
    case Nil
    with rd have "response' = [] \<and> p' = p"
      by (auto simp: read_response_def readline_def is_ascii_def strip_def split: if_splits)
    with Nil two show ?thesis by simp
  next
    case (Cons l ls)
    with rd have "in_buffer p' = ls"
      by (auto simp: read_response_def readline_def split: if_splits)
    with Cons two show ?thesis by simp
  qed
qed

declare info_loop.simps [simp del]

text \<open>The single confirmation line of a set, move or halt command, checked by \<open>assert\<close>.\<close>

definition expect_line :: "string \<Rightarrow> serial_dev \<Rightarrow> (py_error + dict option) \<times> serial_dev" where
  "expect_line lit p =
     (case read_response p of
        (Inl e, p') \<Rightarrow> (Inl e, p')
      | (Inr r, p') \<Rightarrow> if r = lit then (Inr None, p') else (Inl AssertionError, p'))"

text \<open>
  \<open>Focuser._send_command\<close>, as far as it acts on the port. \<open>header_str\<close> is the keyword
  argument of that name (\<open>kwargs['header_str']\<close> raises \<open>KeyError\<close> when it was not given).
  The result is the info dictionary for \<open>'GET INFO'\<close> and \<open>None\<close> otherwise.
\<close>

definition send_command_port ::
  "string \<Rightarrow> string \<Rightarrow> string option \<Rightarrow> serial_dev \<Rightarrow> (py_error + dict option) \<times> serial_dev" where
  "send_command_port command_str command_type header_str p =
     (let p1 = reset_input_buffer (reset_output_buffer p) in
      if \<not> is_ascii command_str then (Inl UnicodeEncodeError, p1)
      else
        (case read_response (port_write command_str p1) of
           (Inl e, p3) \<Rightarrow> (Inl e, p3)
         | (Inr response, p3) \<Rightarrow>
             if response \<noteq> ''!'' then (Inl (RuntimeError response), p3)
             else if command_type = ''GET INFO'' then
               (case read_response p3 of
                  (Inl e, p4) \<Rightarrow> (Inl e, p4)
                | (Inr header, p4) \<Rightarrow>
                    (case header_str of
                       None \<Rightarrow> (Inl KeyError, p4)
                     | Some h \<Rightarrow>
                         if header \<noteq> h then (Inl AssertionError, p4)
                         else
                           (case read_response p4 of
                              (Inl e, p5) \<Rightarrow> (Inl e, p5)
                            | (Inr first, p5) \<Rightarrow>
                                (case info_loop first [] p5 of
                                   (Inl e, p6) \<Rightarrow> (Inl e, p6)
                                 | (Inr info, p6) \<Rightarrow> (Inr (Some info), p6)))))
             else if command_type = ''SET PARAM'' then expect_line ''SET'' p3
             else if command_type = ''MOVE'' then expect_line ''M'' p3
             else if command_type = ''HALT'' then expect_line ''HALTED'' p3
             else (Inl ValueError, p3)))"

section \<open>The FocusLynx focuser\<close>

text \<open>
  The attributes of a \<open>Focuser\<close> object; a leading underscore of the source is written
  \<open>u_\<close>. \<open>name\<close>, \<open>model\<close>, \<open>port\<close> and the logger come from the base class.
  \<open>logger\<close> collects the calls on \<open>self.logger\<close> and \<open>warnings\<close> the calls of \<open>warn\<close>,
  oldest first. The three dictionaries may hold Python's \<open>None\<close>. An attribute that the
  constructor has not yet assigned holds a placeholder; the constructor assigns every
  attribute before it reads it, and it either assigns all of them or raises.
\<close>

datatype log_level = DEBUG | INFO | WARNING | ERROR | CRITICAL

record focuser =
  name :: string
  model :: string
  port :: string
  logger :: "(log_level \<times> string) list"
  warnings :: "string list"
  u_serial_port :: "serial_dev option"
  u_focuser_number :: int
  u_hub_info :: "dict option"
  u_focuser_config :: "dict option"
  u_focuser_status :: "dict option"
  u_position :: int
  u_target_position :: int
  u_is_moving :: bool
  u_temperature :: pyfloat
  u_min_position :: int
  u_max_position :: int

definition log_msg :: "log_level \<Rightarrow> string \<Rightarrow> focuser \<Rightarrow> focuser" where
  "log_msg lvl message s = s\<lparr>logger := logger s @ [(lvl, message)]\<rparr>"

definition warn :: "string \<Rightarrow> focuser \<Rightarrow> focuser" where
  "warn message s = s\<lparr>warnings := warnings s @ [message]\<rparr>"

text \<open>\<open>d[k]\<close> for an attribute \<open>d\<close> that holds a dictionary or \<open>None\<close>.\<close>

definition getitem :: "dict option \<Rightarrow> string \<Rightarrow> py_error + string" where
  "getitem d k =
     (case d of
        None \<Rightarrow> Inl TypeError
      | Some kv \<Rightarrow> (case map_of kv k of None \<Rightarrow> Inl KeyError | Some v \<Rightarrow> Inr v))"

text \<open>The property \<open>uid\<close>: \<open>self._focuser_config['Nickname']\<close>.\<close>

definition uid :: "focuser \<Rightarrow> py_error + string" where
  "uid s = getitem (u_focuser_config s) ''Nickname''"

text \<open>\<open>Focuser.__str__\<close>\<close>

definition str_focuser :: "focuser \<Rightarrow> py_error + string" where
  "str_focuser s =
     (case uid s of
        Inl e \<Rightarrow> Inl e
      | Inr nick \<Rightarrow>
          Inr (name s @ '' '' @ str_int (u_focuser_number s) @ '' ('' @ nick @ '') on '' @ port s))"

text \<open>
  \<open>Focuser._send_command\<close>: the port is reached through \<open>self._serial_port\<close>, which is
  \<open>None\<close> after a failed \<open>connect\<close>; no other attribute is read or assigned.
\<close>

definition u_send_command ::
  "string \<Rightarrow> string \<Rightarrow> string option \<Rightarrow> focuser \<Rightarrow> (py_error + dict option) \<times> focuser" where
  "u_send_command command_str command_type header_str s =
     (case u_serial_port s of
        None \<Rightarrow> (Inl AttributeError, s)
      | Some p \<Rightarrow>
          (case send_command_port command_str command_type header_str p of
             (r, p') \<Rightarrow> (r, s\<lparr>u_serial_port := Some p'\<rparr>)))"

definition setting_message :: "string \<Rightarrow> string \<Rightarrow> string" where
  "setting_message command_str err =
     ''Error setting parameter using command '' @ [CHR 0x27] @ command_str @ [CHR 0x27]
       @ '': '' @ err"

text \<open>\<open>Focuser._get_info\<close>: a \<open>RuntimeError\<close> is caught, logged and warned about, and the
  result is \<open>None\<close>; every other exception passes.\<close>

definition u_get_info :: "string \<Rightarrow> string \<Rightarrow> focuser \<Rightarrow> (py_error + dict option) \<times> focuser" where
  "u_get_info command_str header_str s =
     (case u_send_command command_str ''GET INFO'' (Some header_str) s of
        (Inl (RuntimeError err), s') \<Rightarrow>
          (Inr None, warn (setting_message command_str err)
                       (log_msg ERROR (setting_message command_str err) s'))
      | (Inl e, s') \<Rightarrow> (Inl e, s')
      | (Inr info, s') \<Rightarrow> (Inr info, s'))"

text \<open>\<open>Focuser._set_param\<close>\<close>

definition u_set_param :: "string \<Rightarrow> focuser \<Rightarrow> (py_error + unit) \<times> focuser" where
  "u_set_param command_str s =
     (case u_send_command command_str ''SET PARAM'' None s of
        (Inl (RuntimeError err), s') \<Rightarrow>
          (Inr (), warn (setting_message command_str err)
                     (log_msg ERROR (setting_message command_str err) s'))
      | (Inl e, s') \<Rightarrow> (Inl e, s')
      | (Inr _, s') \<Rightarrow> (Inr (), s'))"

definition u_get_hub_info :: "focuser \<Rightarrow> (py_error + unit) \<times> focuser" where
  "u_get_hub_info s =
     (case u_get_info ''<FHGETHUBINFO>'' ''HUB INFO'' s of
        (Inl e, s') \<Rightarrow> (Inl e, s')
      | (Inr info, s') \<Rightarrow> (Inr (), s'\<lparr>u_hub_info := info\<rparr>))"

definition u_get_focuser_config :: "focuser \<Rightarrow> (py_error + unit) \<times> focuser" where
  "u_get_focuser_config s =
     (case u_get_info (''<F'' @ fmt_1d (u_focuser_number s) @ ''GETCONFIG>'')
                      (''CONFIG'' @ fmt_1d (u_focuser_number s)) s of
        (Inl e, s') \<Rightarrow> (Inl e, s')
      | (Inr info, s') \<Rightarrow> (Inr (), s'\<lparr>u_focuser_config := info\<rparr>))"

text \<open>\<open>int(d[k])\<close> and \<open>float(d[k])\<close>\<close>

definition int_item :: "dict option \<Rightarrow> string \<Rightarrow> py_error + int" where
  "int_item d k =
     (case getitem d k of
        Inl e \<Rightarrow> Inl e
      | Inr v \<Rightarrow> (case py_int v of None \<Rightarrow> Inl ValueError | Some i \<Rightarrow> Inr i))"

definition float_item :: "dict option \<Rightarrow> string \<Rightarrow> py_error + pyfloat" where
  "float_item d k =
     (case getitem d k of
        Inl e \<Rightarrow> Inl e
      | Inr v \<Rightarrow> (case py_float v of None \<Rightarrow> Inl ValueError | Some x \<Rightarrow> Inr x))"

text \<open>
  \<open>Focuser._update_focuser_status\<close>: the attributes are assigned one after the other, so
  an exception leaves the earlier assignments in place. \<open>bool(int(x))\<close> is \<open>int(x) != 0\<close>.
\<close>

definition status_command :: "int \<Rightarrow> string" where
  "status_command n = ''<F'' @ fmt_1d n @ ''GETSTATUS>''"

definition u_update_focuser_status :: "focuser \<Rightarrow> (py_error + unit) \<times> focuser" where
  "u_update_focuser_status s =
     (case u_get_info (status_command (u_focuser_number s))
                      (''STATUS'' @ fmt_1d (u_focuser_number s)) s of
        (Inl e, s0) \<Rightarrow> (Inl e, s0)
      | (Inr info, s0) \<Rightarrow>
     (case int_item info ''Curr Pos'' of
        Inl e \<Rightarrow> (Inl e, s0\<lparr>u_focuser_status := info\<rparr>)
      | Inr pos \<Rightarrow>
     (case int_item info ''Targ Pos'' of
        Inl e \<Rightarrow> (Inl e, s0\<lparr>u_focuser_status := info, u_position := pos\<rparr>)
      | Inr tpos \<Rightarrow>
     (case int_item info ''IsMoving'' of
        Inl e \<Rightarrow> (Inl e, s0\<lparr>u_focuser_status := info, u_position := pos,
                             u_target_position := tpos\<rparr>)
      | Inr m \<Rightarrow>
     (case float_item info ''Temp(C)'' of
        Inl e \<Rightarrow> (Inl e, s0\<lparr>u_focuser_status := info, u_position := pos,
                             u_target_position := tpos, u_is_moving := (m \<noteq> 0)\<rparr>)
      | Inr t \<Rightarrow> (Inr (), s0\<lparr>u_focuser_status := info, u_position := pos,
                              u_target_position := tpos, u_is_moving := (m \<noteq> 0),
                              u_temperature := t\<rparr>))))))"

subsection \<open>Properties\<close>

text \<open>The getter of \<open>position\<close>.\<close>

definition position :: "focuser \<Rightarrow> (py_error + int) \<times> focuser" where
  "position s =
     (case u_update_focuser_status s of
        (Inl e, s') \<Rightarrow> (Inl e, s')
      | (Inr _, s') \<Rightarrow> (Inr (u_position s'), s'))"

definition min_position :: "focuser \<Rightarrow> int" where
  "min_position s = u_min_position s"

definition max_position :: "focuser \<Rightarrow> int" where
  "max_position s = u_max_position s"

text \<open>
  The getter of \<open>temperature\<close>. Its first statement is the expression
  \<open>self._update_focuser_status\<close> without a call: it evaluates to the bound method and has
  no effect. The unit attached by \<open>* u.Celsius\<close> is not modelled.
\<close>

definition temperature :: "focuser \<Rightarrow> (py_error + pyfloat) \<times> focuser" where
  "temperature s = (Inr (u_temperature s), s)"

text \<open>The getter of \<open>is_moving\<close>.\<close>

definition is_moving :: "focuser \<Rightarrow> (py_error + bool) \<times> focuser" where
  "is_moving s =
     (case u_update_focuser_status s of
        (Inl e, s') \<Rightarrow> (Inl e, s')
      | (Inr _, s') \<Rightarrow> (Inr (u_is_moving s'), s'))"

subsection \<open>What a command leaves of the port\<close>

text \<open>
  Reading never touches the list of written commands nor the replies still to come; a
  command that is written takes exactly one group of replies. The blocking wait of
  \<open>move_to\<close> terminates for this reason: every poll that reports a state has used up one
  reply of the script.
\<close>

definition keeps :: "serial_dev \<Rightarrow> serial_dev \<Rightarrow> bool" where
  "keeps p p' = (replies p' = replies p \<and> written p' = written p)"

lemma keeps_refl: "keeps p p"
  by (simp add: keeps_def)

lemma keeps_trans: "keeps p q \<Longrightarrow> keeps q r \<Longrightarrow> keeps p r"
  by (simp add: keeps_def)

lemma read_response_keeps: "read_response p = (r, p') \<Longrightarrow> keeps p p'"
  by (auto simp: keeps_def read_response_def readline_def split: list.splits if_splits)

lemma info_loop_keeps: "info_loop r i p = (x, p') \<Longrightarrow> keeps p p'"
proof (induction r i p arbitrary: x p' rule: info_loop.induct)
  case (1 response info p)
  note unf = info_loop.simps [of response info p]
  show ?case
  proof (cases "response = ''END''")
    case True
    with "1.prems" unf show ?thesis by (simp add: keeps_refl)
  next
    case False
    show ?thesis
    proof (cases "\<exists>key val. map strip (split_on CHR ''='' response) = [key, val]")
      case no: False
      from False unf have "info_loop response info p = (Inl ValueError, p)
          \<or> (\<exists>key val. map strip (split_on CHR ''='' response) = [key, val])"
        by (simp split: list.splits)
      with no "1.prems" show ?thesis by (simp add: keeps_refl)
    next
      case True
      then obtain key val where kv: "map strip (split_on CHR ''='' response) = [key, val]" by auto
      obtain rr p1 where rd: "read_response p = (rr, p1)" by (cases "read_response p")
      have k1: "keeps p p1" using rd by (rule read_response_keeps)
      show ?thesis
      proof (cases rr)
        case (Inl e)
        with False kv rd "1.prems" unf have "p' = p1" by simp
        with k1 show ?thesis by simp
      next
        case (Inr response')
        with False kv rd "1.prems" unf
        have call: "info_loop response' (AList.update key val info) p1 = (x, p')"
          by simp
        have "keeps p1 p'"
          using "1.IH" [OF False, of key "[val]" val "[]" "Inr response'" p1 response' x p'] kv rd Inr call
          by simp
        with k1 show ?thesis by (rule keeps_trans)
      qed
    qed
  qed
qed

lemma expect_line_keeps: "expect_line l p = (x, p') \<Longrightarrow> keeps p p'"
  by (auto simp: expect_line_def split: prod.splits sum.splits if_splits dest: read_response_keeps)

lemma get_info_tail_keeps:
  assumes "(case read_response p3 of
                  (Inl e, p4) \<Rightarrow> (Inl e, p4)
                | (Inr header, p4) \<Rightarrow>
                    (case header_str of
                       None \<Rightarrow> (Inl KeyError, p4)
                     | Some h \<Rightarrow>
                         if header \<noteq> h then (Inl AssertionError, p4)
                         else
                           (case read_response p4 of
                              (Inl e, p5) \<Rightarrow> (Inl e, p5)
                            | (Inr first, p5) \<Rightarrow>
                                (case info_loop first [] p5 of
                                   (Inl e, p6) \<Rightarrow> (Inl e, p6)
                                 | (Inr info, p6) \<Rightarrow> (Inr (Some info), p6))))) = (x, p')"
  shows "keeps p3 p'"
proof -
  obtain r4 p4 where r4: "read_response p3 = (r4, p4)" by (cases "read_response p3")
  obtain r5 p5 where r5: "read_response p4 = (r5, p5)" by (cases "read_response p4")
  have k4: "keeps p3 p4" using r4 by (rule read_response_keeps)
  have k5: "keeps p3 p5" using k4 read_response_keeps [OF r5] by (rule keeps_trans)
  show ?thesis
  proof (cases r4)
    case (Inl e)
    with assms r4 have "p' = p4" by simp
    with k4 show ?thesis by simp
  next
    case h: (Inr header)
    show ?thesis
    proof (cases header_str)
      case None
      with assms r4 h have "p' = p4" by simp
      with k4 show ?thesis by simp
    next
      case (Some hs)
      show ?thesis
      proof (cases "header = hs")
        case False
        with assms r4 h Some have "p' = p4" by simp
        with k4 show ?thesis by simp
      next
        case True
        show ?thesis
        proof (cases r5)
          case (Inl e)
          with assms r4 h Some True r5 have "p' = p5" by simp
          with k5 show ?thesis by simp
        next
          case f: (Inr first)
          obtain r6 p6 where r6: "info_loop first [] p5 = (r6, p6)" by (cases "info_loop first [] p5")
          have k6: "keeps p3 p6" using k5 info_loop_keeps [OF r6] by (rule keeps_trans)
          from assms r4 h Some True r5 f r6 have "p' = p6" by (cases r6) simp_all
          with k6 show ?thesis by simp
        qed
      qed
    qed
  qed
qed

lemma send_command_port_keeps:
  assumes "is_ascii c" and "send_command_port c t h p = (x, p')"
  shows "keeps (port_write c (reset_input_buffer (reset_output_buffer p))) p'"
proof -
  let ?p2 = "port_write c (reset_input_buffer (reset_output_buffer p))"
  obtain r3 p3 where r3: "read_response ?p2 = (r3, p3)" by (cases "read_response ?p2")
  have k3: "keeps ?p2 p3" using r3 by (rule read_response_keeps)
  show ?thesis
  proof (cases r3)
    case (Inl e)
    with assms r3 k3 show ?thesis by (simp add: send_command_port_def Let_def)
  next
    case (Inr response)
    show ?thesis
    proof (cases "response = ''!''")
      case False
      with assms r3 Inr k3 show ?thesis by (simp add: send_command_port_def Let_def)
    next
      case True
      consider (info) "t = ''GET INFO''" | (setp) "t = ''SET PARAM''" | (move) "t = ''MOVE''"
        | (halt) "t = ''HALT''"
        | (other) "t \<noteq> ''GET INFO''" "t \<noteq> ''SET PARAM''" "t \<noteq> ''MOVE''" "t \<noteq> ''HALT''"
        by blast
      then have "keeps p3 p'"
      proof cases
        case info
        with assms r3 Inr True show ?thesis
          by (simp add: send_command_port_def Let_def get_info_tail_keeps)
      next
        case setp
        with assms r3 Inr True show ?thesis
          by (simp add: send_command_port_def Let_def expect_line_keeps)
      next
        case move
        with assms r3 Inr True show ?thesis
          by (simp add: send_command_port_def Let_def expect_line_keeps)
      next
        case halt
        with assms r3 Inr True show ?thesis
          by (simp add: send_command_port_def Let_def expect_line_keeps)
      next
        case other
        with assms r3 Inr True show ?thesis
          by (simp add: send_command_port_def Let_def keeps_refl)
      qed
      with k3 show ?thesis by (rule keeps_trans)
    qed
  qed
qed

lemma send_command_port_not_ascii:
  "\<not> is_ascii c \<Longrightarrow> send_command_port c t h p =
     (Inl UnicodeEncodeError, reset_input_buffer (reset_output_buffer p))"
  by (simp add: send_command_port_def Let_def)

lemma send_command_port_replies:
  assumes "send_command_port c t h p = (x, p')"
  shows "replies p' = (if is_ascii c then tl (replies p) else replies p)"
proof (cases "is_ascii c")
  case True
  from send_command_port_keeps [OF True assms] True show ?thesis
    by (simp add: keeps_def port_write_def reset_input_buffer_def reset_output_buffer_def
          split: list.splits)
next
  case False
  with assms show ?thesis
    by (auto simp: send_command_port_not_ascii reset_input_buffer_def reset_output_buffer_def)
qed

lemma send_command_port_written:
  assumes "send_command_port c t h p = (x, p')"
  shows "written p' = (if is_ascii c then written p @ [c] else written p)"
proof (cases "is_ascii c")
  case True
  from send_command_port_keeps [OF True assms] True show ?thesis
    by (simp add: keeps_def port_write_def reset_input_buffer_def reset_output_buffer_def
          split: list.splits)
next
  case False
  with assms show ?thesis
    by (auto simp: send_command_port_not_ascii reset_input_buffer_def reset_output_buffer_def)
qed

lemma read_response_timeout: "in_buffer p = [] \<Longrightarrow> read_response p = (Inr [], p)"
  by (simp add: read_response_def readline_def is_ascii_def strip_def)

lemma send_command_port_Inr:
  assumes "send_command_port c t h p = (Inr r, p')"
  shows "replies p \<noteq> [] \<and> is_ascii c"
proof -
  from assms have a: "is_ascii c"
    by (auto simp: send_command_port_def Let_def split: if_splits)
  have "replies p \<noteq> []"
  proof
    assume e: "replies p = []"
    let ?p2 = "port_write c (reset_input_buffer (reset_output_buffer p))"
    from e have "in_buffer ?p2 = []"
      by (simp add: port_write_def reset_input_buffer_def reset_output_buffer_def)
    then have "read_response ?p2 = (Inr [], ?p2)" by (rule read_response_timeout)
    with a assms show False
      by (simp add: send_command_port_def Let_def)
  qed
  with a show ?thesis by simp
qed

definition pending_replies :: "focuser \<Rightarrow> nat" where
  "pending_replies s = (case u_serial_port s of None \<Rightarrow> 0 | Some p \<Rightarrow> length (replies p))"

lemma u_send_command_Inr:
  assumes "u_send_command c t h s = (Inr r, s')"
  shows "pending_replies s' < pending_replies s"
proof (cases "u_serial_port s")
  case None
  with assms show ?thesis by (simp add: u_send_command_def)
next
  case (Some p)
  obtain x p' where sp: "send_command_port c t h p = (x, p')"
    by (cases "send_command_port c t h p")
  with assms Some have x: "x = Inr r" and s': "s' = s\<lparr>u_serial_port := Some p'\<rparr>"
    by (simp_all add: u_send_command_def)
  from sp x send_command_port_Inr have ne: "replies p \<noteq> []" and asc: "is_ascii c"
    by blast+
  from send_command_port_replies [OF sp] asc have "replies p' = tl (replies p)" by simp
  with ne Some s' show ?thesis by (simp add: pending_replies_def)
qed

lemma pending_replies_log_warn [simp]:
  "pending_replies (log_msg l m s) = pending_replies s"
  "pending_replies (warn m s) = pending_replies s"
  by (simp_all add: pending_replies_def log_msg_def warn_def)

lemma u_get_info_Some:
  assumes "u_get_info c h s = (Inr (Some d), s')"
  shows "pending_replies s' < pending_replies s"
proof -
  obtain x s1 where sc: "u_send_command c ''GET INFO'' (Some h) s = (x, s1)"
    by (cases "u_send_command c ''GET INFO'' (Some h) s")
  show ?thesis
  proof (cases x)
    case (Inl e)
    with assms sc show ?thesis by (cases e) (simp_all add: u_get_info_def)
  next
    case (Inr info)
    with assms sc have "s' = s1" by (simp add: u_get_info_def)
    with sc Inr u_send_command_Inr show ?thesis by blast
  qed
qed

lemma int_item_None [simp]: "int_item None k = Inl TypeError"
  by (simp add: int_item_def getitem_def)

lemma u_update_focuser_status_Inr:
  assumes "u_update_focuser_status s = (Inr u, s')"
  shows "pending_replies s' < pending_replies s"
proof -
  let ?c = "status_command (u_focuser_number s)"
  let ?h = "''STATUS'' @ fmt_1d (u_focuser_number s)"
  obtain x s0 where gi: "u_get_info ?c ?h s = (x, s0)" by (cases "u_get_info ?c ?h s")
  show ?thesis
  proof (cases x)
    case (Inl e)
    with assms gi show ?thesis by (simp add: u_update_focuser_status_def)
  next
    case (Inr info)
    show ?thesis
    proof (cases info)
      case None
      with assms gi Inr show ?thesis by (simp add: u_update_focuser_status_def)
    next
      case (Some d)
      with gi Inr have less: "pending_replies s0 < pending_replies s"
        using u_get_info_Some by blast
      from assms gi Inr have "pending_replies s' = pending_replies s0"
        by (auto simp: u_update_focuser_status_def pending_replies_def split: sum.splits)
      with less show ?thesis by simp
    qed
  qed
qed

lemma is_moving_Inr:
  assumes "is_moving s = (Inr b, s')"
  shows "pending_replies s' < pending_replies s"
proof -
  obtain x s1 where u: "u_update_focuser_status s = (x, s1)"
    by (cases "u_update_focuser_status s")
  with assms show ?thesis
    by (cases x) (auto simp: is_moving_def dest: u_update_focuser_status_Inr)
qed

subsection \<open>Methods\<close>

text \<open>
  \<open>Focuser.connect\<close>. The argument \<open>serial_Serial\<close> is the environment: what
  \<open>serial.Serial(port=self.port, ...)\<close> yields for a port address, an open port or the
  exception it raises. \<open>SerialTimeoutException\<close> is a subclass of \<open>SerialException\<close>.
\<close>

definition connect :: "(string \<Rightarrow> py_error + serial_dev) \<Rightarrow> focuser \<Rightarrow> (py_error + unit) \<times> focuser" where
  "connect serial_Serial s =
     (case serial_Serial (port s) of
        Inl err \<Rightarrow>
          if err = SerialException \<or> err = SerialTimeoutException
          then (Inl err, log_msg CRITICAL (''Could not open '' @ port s @ ''!'')
                           (s\<lparr>u_serial_port := None\<rparr>))
          else (Inl err, s)
      | Inr p \<Rightarrow>
          (Inr (), log_msg DEBUG (''Established serial connection to '' @ name s @ '' on '' @ port s)
                     (s\<lparr>u_serial_port := Some p\<rparr>)))"

text \<open>The loop \<open>while self.is_moving: time.sleep(1)\<close> of \<open>move_to\<close>; sleeping has no effect
  on the state.\<close>

function wait_while_moving :: "focuser \<Rightarrow> (py_error + unit) \<times> focuser" where
  "wait_while_moving s =
     (case is_moving s of
        (Inl e, s') \<Rightarrow> (Inl e, s')
      | (Inr moving, s') \<Rightarrow> if moving then wait_while_moving s' else (Inr (), s'))"
  by pat_completeness auto
termination
proof (relation "measure pending_replies", goal_cases)
  case 1
  show ?case by simp
next
  case (2 s x s' moving)
  then have "is_moving s = (Inr moving, s')" by simp
  then show ?case by (simp add: is_moving_Inr)
qed

declare wait_while_moving.simps [simp del]

text \<open>
  \<open>Focuser.move_to\<close>. The debug message reads the property \<open>uid\<close> before the command is
  sent, and the message about a missed target reads it again.
\<close>

definition clamp_message :: "string \<Rightarrow> int \<Rightarrow> int \<Rightarrow> string" where
  "clamp_message rel p bound =
     ''Requested position '' @ str_int p @ '' '' @ rel @ '' position, moving to ''
       @ str_int bound @ ''!''"

text \<open>The \<open>if\<close>/\<open>elif\<close> block at the head of \<open>move_to\<close>: the target and the state with
  the messages it logs and warns.\<close>

definition clamp_position :: "int \<Rightarrow> focuser \<Rightarrow> int \<times> focuser" where
  "clamp_position p s =
     (if p < u_min_position s then
        (u_min_position s,
         warn (clamp_message ''less than min'' p (u_min_position s))
           (log_msg ERROR (clamp_message ''less than min'' p (u_min_position s)) s))
      else if p > u_max_position s then
        (u_max_position s,
         warn (clamp_message ''greater than max'' p (u_max_position s))
           (log_msg ERROR (clamp_message ''greater than max'' p (u_max_position s)) s))
      else (p, s))"

definition move_command :: "int \<Rightarrow> int \<Rightarrow> string" where
  "move_command n target = ''<F'' @ fmt_1d n @ ''MA'' @ fmt_06d target @ ''>''"

definition missed_message :: "string \<Rightarrow> int \<Rightarrow> int \<Rightarrow> string" where
  "missed_message nick target pos =
     ''Focuser '' @ nick @ '' did not reach target position '' @ str_int target
       @ '', now at '' @ str_int pos @ ''!''"

definition move_to :: "int \<Rightarrow> bool \<Rightarrow> focuser \<Rightarrow> (py_error + int) \<times> focuser" where
  "move_to p blocking s =
     (case clamp_position p s of
        (target, s1) \<Rightarrow>
     (case uid s1 of
        Inl e \<Rightarrow> (Inl e, s1)
      | Inr nick \<Rightarrow>
     (case u_send_command (move_command (u_focuser_number s1) target) ''MOVE'' None
             (log_msg DEBUG (''Moving focuser '' @ nick @ '' to '' @ str_int target) s1) of
        (Inl e, s2) \<Rightarrow> (Inl e, s2)
      | (Inr _, s2) \<Rightarrow>
          if blocking then
            (case wait_while_moving s2 of
               (Inl e, s3) \<Rightarrow> (Inl e, s3)
             | (Inr _, s3) \<Rightarrow>
            (case position s3 of
               (Inl e, s4) \<Rightarrow> (Inl e, s4)
             | (Inr pos, s4) \<Rightarrow>
                 if pos \<noteq> u_target_position s4 then
                   (case uid s4 of
                      Inl e \<Rightarrow> (Inl e, s4)
                    | Inr nick' \<Rightarrow>
                        (Inr (u_position s4),
                         warn (missed_message nick' (u_target_position s4) (u_position s4))
                           (log_msg WARNING
                              (missed_message nick' (u_target_position s4) (u_position s4)) s4)))
                 else (Inr (u_position s4), s4)))
          else (Inr target, s2))))"

text \<open>\<open>Focuser.halt\<close>\<close>

definition halt_command :: "int \<Rightarrow> string" where
  "halt_command n = ''<F'' @ fmt_1d n @ ''HALT>''"

definition halt :: "focuser \<Rightarrow> (py_error + unit) \<times> focuser" where
  "halt s =
     (case u_send_command (halt_command (u_focuser_number s)) ''HALT'' None s of
        (Inl e, s1) \<Rightarrow> (Inl e, s1)
      | (Inr _, s1) \<Rightarrow>
          (case uid s1 of
             Inl e \<Rightarrow> (Inl e, s1)
           | Inr nick \<Rightarrow> (Inr (), log_msg WARNING (''Focuser '' @ nick @ '' halted'') s1)))"

text \<open>The setter of \<open>uid\<close>; a nickname is a string of code points below 256.\<close>

definition uid_setter :: "string \<Rightarrow> focuser \<Rightarrow> (py_error + unit) \<times> focuser" where
  "uid_setter nickname s =
     (case (if length nickname > 16
            then (take 16 nickname,
                  log_msg WARNING (''Truncated nickname '' @ nickname @ '' to '' @ take 16 nickname
                                     @ '' (must be <= 16 characters)'') s)
            else (nickname, s)) of
        (nickname', s1) \<Rightarrow>
          (case u_set_param (''<F'' @ fmt_1d (u_focuser_number s1) @ ''SCNN'' @ nickname' @ ''>'') s1 of
             (Inl e, s2) \<Rightarrow> (Inl e, s2)
           | (Inr _, s2) \<Rightarrow> u_get_focuser_config s2))"

text \<open>\<open>Focuser._initialise\<close>\<close>

definition u_initialise :: "focuser \<Rightarrow> (py_error + unit) \<times> focuser" where
  "u_initialise s =
     (case u_get_hub_info s of
        (Inl e, s1) \<Rightarrow> (Inl e, s1)
      | (Inr _, s1) \<Rightarrow>
     (case u_get_focuser_config s1 of
        (Inl e, s2) \<Rightarrow> (Inl e, s2)
      | (Inr _, s2) \<Rightarrow>
     (case u_update_focuser_status s2 of
        (Inl e, s3) \<Rightarrow> (Inl e, s3)
      | (Inr _, s3) \<Rightarrow>
     (case getitem (u_focuser_config s3) ''Dev Typ'' of
        Inl e \<Rightarrow> (Inl e, s3)
      | Inr typ \<Rightarrow>
     (case int_item (u_focuser_config s3) ''Max Pos'' of
        Inl e \<Rightarrow> (Inl e, s3\<lparr>model := typ\<rparr>)
      | Inr mx \<Rightarrow>
     (case str_focuser (s3\<lparr>model := typ, u_max_position := mx\<rparr>) of
        Inl e \<Rightarrow> (Inl e, s3\<lparr>model := typ, u_max_position := mx\<rparr>)
      | Inr txt \<Rightarrow>
          (Inr (), log_msg INFO (txt @ '' initialised'')
                     (s3\<lparr>model := typ, u_max_position := mx\<rparr>))))))))"

subsection \<open>Construction\<close>

text \<open>
  Modelled from the spec: the base class \<open>AbstractFocuser\<close> is not among the sources. Its
  constructor is taken to store the name, the model and the transport address (the spec's
  ConnectionConfig) and to provide the logger; the remaining attributes start at their
  placeholders.
\<close>

definition AbstractFocuser_init :: "string \<Rightarrow> string \<Rightarrow> string \<Rightarrow> focuser" where
  "AbstractFocuser_init nm mdl prt =
     \<lparr>name = nm, model = mdl, port = prt, logger = [], warnings = [],
      u_serial_port = None, u_focuser_number = 0,
      u_hub_info = None, u_focuser_config = None, u_focuser_status = None,
      u_position = 0, u_target_position = 0, u_is_moving = False,
      u_temperature = PyFloat [], u_min_position = 0, u_max_position = 0\<rparr>"

text \<open>
  Modelled from the spec: the setter of \<open>position\<close> is inherited from \<open>AbstractFocuser\<close>,
  which is not among the sources. The class documents \<open>initial_position\<close> as "the focuser
  will drive to this encoder position following initialisation", so the setter is taken to
  be \<open>self.move_to(position)\<close> with its default \<open>blocking=True\<close>, the result dropped.
\<close>

definition position_setter :: "int \<Rightarrow> focuser \<Rightarrow> (py_error + unit) \<times> focuser" where
  "position_setter p s =
     (case move_to p True s of
        (Inl e, s') \<Rightarrow> (Inl e, s')
      | (Inr _, s') \<Rightarrow> (Inr (), s'))"

text \<open>
  The three blocks of \<open>Focuser.__init__\<close> that follow \<open>self._initialise()\<close>: the lower
  bound, the upper bound and the initial position. Positions are integers, so
  \<open>int(min_position)\<close> and \<open>int(max_position)\<close> change nothing.
\<close>

definition init_min_position :: "int \<Rightarrow> focuser \<Rightarrow> focuser" where
  "init_min_position min_pos s =
     (if min_pos \<ge> 0 then s\<lparr>u_min_position := min_pos\<rparr>
      else warn (''Specified min_position '' @ str_int min_pos @ '' less than zero, ignoring!'')
             (s\<lparr>u_min_position := 0\<rparr>))"

definition widen_message :: "int \<Rightarrow> int \<Rightarrow> string" where
  "widen_message mx device_max =
     ''Specified max_position '' @ str_int mx @ '' greater than focuser max ''
       @ str_int device_max @ ''!''"

definition init_max_position :: "int option \<Rightarrow> focuser \<Rightarrow> (py_error + unit) \<times> focuser" where
  "init_max_position max_pos s =
     (case max_pos of
        None \<Rightarrow> (Inr (), s)
      | Some mx \<Rightarrow>
          if mx \<le> u_max_position s then
            if mx > u_min_position s then (Inr (), s\<lparr>u_max_position := mx\<rparr>)
            else (Inl ValueError, s)
          else
            (Inr (), warn (widen_message mx (u_max_position s)) s))"

definition init_initial_position :: "int option \<Rightarrow> focuser \<Rightarrow> (py_error + unit) \<times> focuser" where
  "init_initial_position initial_position s =
     (case initial_position of
        None \<Rightarrow> (Inr (), s)
      | Some p \<Rightarrow> position_setter p s)"

text \<open>
  \<open>Focuser.__init__\<close>, run on the new object, in two parts: \<open>Focuser_init_device\<close> is
  the constructor up to and including \<open>self._initialise()\<close>, \<open>Focuser_init\<close> the whole
  of it. The handler of a failed \<open>connect\<close> formats
  its message with the name \<open>port\<close>, which is neither a parameter nor a global of the
  module (the attribute is \<open>self.port\<close>): evaluating it raises \<open>NameError\<close>, so the handler's
  \<open>logger.error\<close>, \<open>warn\<close> and \<open>return\<close> are never reached.
\<close>

definition Focuser_init_device ::
  "(string \<Rightarrow> py_error + serial_dev) \<Rightarrow> string \<Rightarrow> string \<Rightarrow> string \<Rightarrow> int
     \<Rightarrow> (py_error + unit) \<times> focuser" where
  "Focuser_init_device serial_Serial nm mdl prt focuser_number =
     (case connect serial_Serial
             (log_msg DEBUG ''Initialising FocusLynx focuser'' (AbstractFocuser_init nm mdl prt)) of
        (Inl err, s1) \<Rightarrow>
          if err = SerialException \<or> err = SerialTimeoutException then (Inl NameError, s1)
          else (Inl err, s1)
      | (Inr _, s1) \<Rightarrow> u_initialise (s1\<lparr>u_focuser_number := focuser_number\<rparr>))"

definition Focuser_init ::
  "(string \<Rightarrow> py_error + serial_dev) \<Rightarrow> string \<Rightarrow> string \<Rightarrow> string \<Rightarrow> int option \<Rightarrow> int \<Rightarrow> int
     \<Rightarrow> int option \<Rightarrow> (py_error + unit) \<times> focuser" where
  "Focuser_init serial_Serial nm mdl prt initial_position focuser_number min_pos max_pos =
     (case Focuser_init_device serial_Serial nm mdl prt focuser_number of
        (Inl e, s2) \<Rightarrow> (Inl e, s2)
      | (Inr _, s2) \<Rightarrow>
     (case init_max_position max_pos (init_min_position min_pos s2) of
        (Inl e, s3) \<Rightarrow> (Inl e, s3)
      | (Inr _, s3) \<Rightarrow> init_initial_position initial_position s3))"

text \<open>
  The expression \<open>Focuser(...)\<close> as its caller sees it: the object when \<open>__init__\<close> returns,
  the exception when it raises (the object is then dropped with the frame of \<open>__init__\<close>).
\<close>

definition Focuser_new ::
  "(string \<Rightarrow> py_error + serial_dev) \<Rightarrow> string \<Rightarrow> string \<Rightarrow> string \<Rightarrow> int option \<Rightarrow> int \<Rightarrow> int
     \<Rightarrow> int option \<Rightarrow> py_error + focuser" where
  "Focuser_new serial_Serial nm mdl prt initial_position focuser_number min_pos max_pos =
     (case Focuser_init serial_Serial nm mdl prt initial_position focuser_number min_pos max_pos of
        (Inl e, s) \<Rightarrow> Inl e
      | (Inr _, s) \<Rightarrow> Inr s)"

section \<open>The mount\<close>

text \<open>
  The values of the mount's configuration dictionary are strings, booleans or \<open>None\<close>; the
  command table maps command names to tokens, which are strings.
\<close>

datatype pyval = PyNone | PyBool bool | PyStr string

text \<open>
  Modelled from the spec: \<open>panoptes.utils.serial.SerialData\<close> is not among the sources. It
  is the spec's Transport: \<open>write\<close> puts the text on the wire and \<open>read\<close> yields the next
  response of the device, the empty string when there is none.
\<close>

record serial_data =
  sd_port :: pyval
  wire :: "string list"
  responses :: "string list"

definition SerialData :: "pyval \<Rightarrow> serial_data" where
  "SerialData prt = \<lparr>sd_port = prt, wire = [], responses = []\<rparr>"

definition sd_write :: "string \<Rightarrow> serial_data \<Rightarrow> serial_data" where
  "sd_write text sd = sd\<lparr>wire := wire sd @ [text]\<rparr>"

definition sd_read :: "serial_data \<Rightarrow> string \<times> serial_data" where
  "sd_read sd =
     (case responses sd of
        [] \<Rightarrow> ([], sd)
      | r # rs \<Rightarrow> (r, sd\<lparr>responses := rs\<rparr>))"

text \<open>
  The attributes of an \<open>AbstractMount\<close> object. \<open>serial\<close> is \<open>None\<close> as long as the
  attribute does not exist, that is until \<open>create_serial\<close> has run; the other attributes
  hold a placeholder until they are assigned.
\<close>

record mount =
  non_sidereal_available :: pyval
  PEC_available :: pyval
  serial_port :: pyval
  commands :: dict
  u_pre_cmd :: string
  u_post_cmd :: string
  is_connected :: bool
  is_initialized :: bool
  is_slewing :: bool
  serial :: "serial_data option"
  mount_logger :: "(log_level \<times> string) list"

definition mount_log :: "log_level \<Rightarrow> string \<Rightarrow> mount \<Rightarrow> mount" where
  "mount_log lvl message m = m\<lparr>mount_logger := mount_logger m @ [(lvl, message)]\<rparr>"

definition new_mount :: mount where
  "new_mount =
     \<lparr>non_sidereal_available = PyNone, PEC_available = PyNone, serial_port = PyNone,
      commands = [], u_pre_cmd = [], u_post_cmd = [],
      is_connected = False, is_initialized = False, is_slewing = False,
      serial = None, mount_logger = []\<rparr>"

text \<open>\<open>d.get(k, default)\<close>\<close>

definition dict_get :: "('k \<times> 'v) list \<Rightarrow> 'k \<Rightarrow> 'v \<Rightarrow> 'v" where
  "dict_get d k dflt = (case map_of d k of None \<Rightarrow> dflt | Some v \<Rightarrow> v)"

text \<open>
  The class body of \<open>AbstractMount\<close> defines \<open>setup_commands\<close> twice. The first definition
  (with the parameter \<open>commands\<close>) sets the wrapping tokens and asserts that a \<open>slew\<close>
  command is present; the message of the failing \<open>assert\<close> is the result of the logger
  call, so the warning is logged.
\<close>

definition setup_commands_first :: "dict \<Rightarrow> mount \<Rightarrow> (py_error + dict) \<times> mount" where
  "setup_commands_first cmds m =
     (case map_of cmds ''slew'' of
        None \<Rightarrow>
          (Inl AssertionError,
           mount_log WARNING ''No slew command available''
             (m\<lparr>u_pre_cmd := dict_get cmds ''cmd_pre'' '':'',
                u_post_cmd := dict_get cmds ''cmd_post'' ''#''\<rparr>))
      | Some _ \<Rightarrow>
          (Inr cmds, m\<lparr>u_pre_cmd := dict_get cmds ''cmd_pre'' '':'',
                       u_post_cmd := dict_get cmds ''cmd_post'' ''#''\<rparr>))"

text \<open>
  The second definition, further down the class body, rebinds the name: it takes no
  argument besides \<open>self\<close> and raises \<open>NotImplementedError\<close>. It is the method that the
  class \<open>AbstractMount\<close> has.
\<close>

definition setup_commands :: "mount \<Rightarrow> (py_error + dict) \<times> mount" where
  "setup_commands m = (Inl NotImplementedError, m)"

text \<open>
  The call \<open>self.setup_commands(commands)\<close> on an object of the class \<open>AbstractMount\<close>
  itself: the method in effect accepts one positional argument and is given two, which
  raises \<open>TypeError\<close> before its body runs.
\<close>

definition call_setup_commands :: "dict \<Rightarrow> mount \<Rightarrow> (py_error + dict) \<times> mount" where
  "call_setup_commands cmds m = (Inl TypeError, m)"

text \<open>
  \<open>AbstractMount.__init__\<close>, run on the new object. \<open>self.setup_commands\<close> is looked up on
  the class of the object, so what the call does is the parameter \<open>setup\<close>:
  \<open>call_setup_commands\<close> for \<open>AbstractMount\<close> as written, another function for a class that
  overrides the method. The call of \<open>create_serial\<close> is commented out in the source.
\<close>

definition AbstractMount_init ::
  "(dict \<Rightarrow> mount \<Rightarrow> (py_error + dict) \<times> mount) \<Rightarrow> (string \<times> pyval) list option \<Rightarrow> dict option
     \<Rightarrow> bool \<Rightarrow> (py_error + unit) \<times> mount" where
  "AbstractMount_init setup config cmds connect_arg =
     (case config of
        None \<Rightarrow> (Inl AssertionError, mount_log ERROR ''Mount requries a config'' new_mount)
      | Some cfg \<Rightarrow>
     (case cmds of
        None \<Rightarrow> (Inl AssertionError, mount_log ERROR ''Mount requries commands'' new_mount)
      | Some table \<Rightarrow>
          if dict_get cfg ''serial_port'' PyNone = PyNone then
            (Inl AssertionError,
             mount_log ERROR ''No port specified, cannot create mount'' new_mount)
          else
            (case setup table
                    (new_mount\<lparr>non_sidereal_available :=
                                  dict_get cfg ''non_sidereal_available'' (PyBool False),
                                PEC_available := dict_get cfg ''PEC_available'' (PyBool False),
                                serial_port := dict_get cfg ''serial_port'' PyNone\<rparr>) of
               (Inl e, m) \<Rightarrow> (Inl e, m)
             | (Inr table', m) \<Rightarrow>
                 (Inr (), m\<lparr>commands := table', is_connected := False,
                            is_initialized := False, is_slewing := False\<rparr>))))"

text \<open>\<open>AbstractMount.create_serial\<close>\<close>

definition create_serial :: "mount \<Rightarrow> mount" where
  "create_serial m = m\<lparr>serial := Some (SerialData (serial_port m))\<rparr>"

text \<open>
  \<open>AbstractMount.get_command\<close>: \<open>self.commands.get(cmd)\<close> is \<open>None\<close> for an unknown name, and
  \<open>format\<close> writes \<open>None\<close> as the text \<open>None\<close>.
\<close>

definition get_command :: "mount \<Rightarrow> string \<Rightarrow> string" where
  "get_command m cmd =
     u_pre_cmd m @ (case map_of (commands m) cmd of None \<Rightarrow> ''None'' | Some tok \<Rightarrow> tok)
       @ u_post_cmd m"

text \<open>\<open>AbstractMount.serial_send\<close>, \<open>serial_read\<close> and \<open>serial_query\<close>\<close>

definition serial_send :: "string \<Rightarrow> mount \<Rightarrow> (py_error + unit) \<times> mount" where
  "serial_send string_command m =
     (case serial (mount_log DEBUG (''Mount Send: '' @ string_command) m) of
        None \<Rightarrow> (Inl AttributeError, mount_log DEBUG (''Mount Send: '' @ string_command) m)
      | Some sd \<Rightarrow>
          (Inr (), (mount_log DEBUG (''Mount Send: '' @ string_command) m)
                     \<lparr>serial := Some (sd_write string_command sd)\<rparr>))"

definition serial_read :: "mount \<Rightarrow> (py_error + string) \<times> mount" where
  "serial_read m =
     (case serial m of
        None \<Rightarrow> (Inl AttributeError, m)
      | Some sd \<Rightarrow>
          (case sd_read sd of
             (response, sd') \<Rightarrow>
               (Inr response,
                mount_log DEBUG (''Mount Read: '' @ response) (m\<lparr>serial := Some sd'\<rparr>))))"

definition serial_query :: "string \<Rightarrow> mount \<Rightarrow> (py_error + string) \<times> mount" where
  "serial_query cmd m =
     (case serial_send (get_command m cmd) m of
        (Inl e, m1) \<Rightarrow> (Inl e, m1)
      | (Inr _, m1) \<Rightarrow> serial_read m1)"

section \<open>Notions used to state the properties\<close>

text \<open>
  \<open>sent\<close> is the list of commands put on the wire so far. \<open>evolves s s'\<close> says what no
  operation after construction changes between a state and a later one: the bounds, the
  focuser number, the name and the port address stay, and the wire, the warnings and the log
  only grow.
\<close>

definition sent :: "focuser \<Rightarrow> string list" where
  "sent s = (case u_serial_port s of None \<Rightarrow> [] | Some p \<Rightarrow> written p)"

definition evolves :: "focuser \<Rightarrow> focuser \<Rightarrow> bool" where
  "evolves s s' =
     (u_min_position s' = u_min_position s \<and> u_max_position s' = u_max_position s \<and>
      u_focuser_number s' = u_focuser_number s \<and> name s' = name s \<and> port s' = port s \<and>
      prefix (sent s) (sent s') \<and> prefix (warnings s) (warnings s') \<and>
      prefix (logger s) (logger s') \<and> (u_serial_port s' = None) = (u_serial_port s = None))"

text \<open>
  \<open>first_line p\<close> is the line that the first \<open>readline\<close> after the next command returns:
  the input buffer is emptied before the command is written, so it is the first line of the
  device's next reply, or the empty line of a timeout. \<open>move_acknowledged p\<close> says that
  the device's next reply starts with the acknowledgment and the confirmation of a move.
\<close>

definition first_line :: "serial_dev \<Rightarrow> string" where
  "first_line p =
     (case replies p of
        [] \<Rightarrow> []
      | r # _ \<Rightarrow> (case r of [] \<Rightarrow> [] | l # _ \<Rightarrow> l))"


text \<open>
  The pair that the spec's sentence describes for a body line: "split on the first \<open>=\<close>
  into a key and a value with both sides trimmed". \<open>record_of\<close> stores these pairs line
  after line, as \<open>info[key] = value\<close> does.
\<close>

definition spec_key_value :: "string \<Rightarrow> string \<times> string" where
  "spec_key_value l =
     (strip (takeWhile (\<lambda>c. c \<noteq> CHR ''='') l), strip (tl (dropWhile (\<lambda>c. c \<noteq> CHR ''='') l)))"

definition record_of :: "string list \<Rightarrow> dict" where
  "record_of body =
     foldl (\<lambda>d l. AList.update (fst (spec_key_value (strip l))) (snd (spec_key_value (strip l))) d)
       [] body"

text \<open>
  A raw body line is well formed when it is ASCII text, is not the terminator and holds
  exactly one \<open>=\<close>; it is malformed when it is ASCII text, is not the terminator and holds
  no \<open>=\<close> or more than one.
\<close>

definition well_formed :: "string \<Rightarrow> bool" where
  "well_formed l = (is_ascii l \<and> strip l \<noteq> ''END'' \<and> count_list l CHR ''='' = 1)"

definition malformed :: "string \<Rightarrow> bool" where
  "malformed l = (is_ascii l \<and> strip l \<noteq> ''END'' \<and> count_list l CHR ''='' \<noteq> 1)"

section \<open>A scripted device and a mount for the examples\<close>

text \<open>
  A FocusLynx hub with one focuser called \<open>Focus1\<close>, whose travel ends at 7000: the replies
  to the three queries of \<open>_initialise\<close>, and a status reply with the given fields.
\<close>

definition hub_reply :: "string list" where
  "hub_reply = [''!'', ''HUB INFO'', ''Hub FVer = 2.0.4'', ''END'']"

definition config_reply :: "string list" where
  "config_reply =
     [''!'', ''CONFIG1'', ''Nickname = Focus1'', ''Max Pos = 7000'', ''Dev Typ = FA'', ''END'']"

definition status_reply :: "string \<Rightarrow> string \<Rightarrow> string \<Rightarrow> string \<Rightarrow> string list" where
  "status_reply temp cur targ moving =
     [''!'', ''STATUS1'', ''Temp(C)  = '' @ temp, ''Curr Pos = '' @ cur, ''Targ Pos = '' @ targ,
      ''IsMoving = '' @ moving, ''END'']"

definition init_replies :: "string list list" where
  "init_replies = [hub_reply, config_reply, status_reply ''+21.7'' ''3000'' ''3000'' ''0'']"

definition scripted_device :: "string list list \<Rightarrow> string \<Rightarrow> py_error + serial_dev" where
  "scripted_device rs prt = Inr \<lparr>written = [], in_buffer = [], replies = rs\<rparr>"

definition no_device :: "py_error \<Rightarrow> string \<Rightarrow> py_error + serial_dev" where
  "no_device err prt = Inl err"

text \<open>A mount of a class that keeps the first definition of \<open>setup_commands\<close>, with its
  serial connection created.\<close>

definition example_mount :: mount where
  "example_mount =
     create_serial
       (snd (AbstractMount_init setup_commands_first
               (Some [(''serial_port'', PyStr ''/dev/ttyUSB1'')])
               (Some [(''slew'', ''MS''), (''slewing'', ''SE?'')]) False))"

text \<open>The example focuser constructed with a lower bound of 100 and the travel narrowed to
  6000, and the object as \<open>_initialise\<close> leaves it.\<close>

definition narrowed_focuser :: focuser where
  "narrowed_focuser =
     (case Focuser_new (scripted_device init_replies) ''FocusLynx Focuser'' ''FA'' ''/dev/ttyUSB0''
             None 1 100 (Some 6000) of
        Inl e \<Rightarrow> AbstractFocuser_init [] [] []
      | Inr s \<Rightarrow> s)"




definition nacked_port :: serial_dev where
  "nacked_port =
     \<lparr>written = [''<FHGETHUBINFO>'', ''<F1GETCONFIG>'', ''<F1GETSTATUS>''], in_buffer = [],
      replies = [[''X'']]\<rparr>"

definition nacked_focuser :: focuser where
  "nacked_focuser =
     (case Focuser_new (scripted_device (init_replies @ replies nacked_port)) ''FocusLynx Focuser''
             ''FA'' ''/dev/ttyUSB0'' None 1 0 None of
        Inl e \<Rightarrow> AbstractFocuser_init [] [] []
      | Inr s \<Rightarrow> s)"

text \<open>The same focuser on a device whose next answer starts with a byte that is not ASCII.\<close>

definition garbled_port :: serial_dev where
  "garbled_port =
     \<lparr>written = [''<FHGETHUBINFO>'', ''<F1GETCONFIG>'', ''<F1GETSTATUS>''], in_buffer = [],
      replies = [[[CHR 0xE9, CHR ''!'']]]\<rparr>"

definition garbled_focuser :: focuser where
  "garbled_focuser =
     (case Focuser_new (scripted_device (init_replies @ replies garbled_port)) ''FocusLynx Focuser''
             ''FA'' ''/dev/ttyUSB0'' None 1 0 None of
        Inl e \<Rightarrow> AbstractFocuser_init [] [] []
      | Inr s \<Rightarrow> s)"

text \<open>A port on which the device will answer the next command with a configuration block
  made of the given lines.\<close>

definition config_port :: "string list \<Rightarrow> serial_dev" where
  "config_port lines = \<lparr>written = [], in_buffer = [], replies = [''!'' # ''CONFIG1'' # lines]\<rparr>"

section \<open>Properties of the focuser\<close>

subsection \<open>Commands are ASCII text\<close>

lemma digit_nth_ascii: "k < 10 \<Longrightarrow> \<not> digit7 (''0123456789'' ! k)"
  by (auto simp: less_Suc_eq numeral_nat nth_Cons')

lemma is_ascii_simps [simp]:
  "is_ascii []"
  "is_ascii (c # cs) = (\<not> digit7 c \<and> is_ascii cs)"
  "is_ascii (a @ b) = (is_ascii a \<and> is_ascii b)"
  "is_ascii (replicate k CHR ''0'')"
  by (auto simp: is_ascii_def list_all_iff)

lemma is_ascii_digits_of: "is_ascii (digits_of n)"
proof (induction n rule: digits_of.induct)
  case (1 n)
  show ?case
  proof (cases "n < 10")
    case True
    then have "nat n < 10" by simp
    with True show ?thesis
      by (subst digits_of.simps) (simp add: digit_nth_ascii)
  next
    case False
    have "nat (n mod 10) < 10" by simp
    with False 1 show ?thesis
      by (subst digits_of.simps) (simp add: digit_nth_ascii)
  qed
qed

lemma is_ascii_str_int: "is_ascii (str_int i)"
  by (simp add: str_int_def is_ascii_digits_of)

lemma is_ascii_fmt_1d: "is_ascii (fmt_1d i)"
  by (simp add: fmt_1d_def is_ascii_str_int)

lemma is_ascii_fmt_06d: "is_ascii (fmt_06d i)"
  by (simp add: fmt_06d_def is_ascii_digits_of)

lemma is_ascii_move_command: "is_ascii (move_command n t)"
  by (simp add: move_command_def is_ascii_fmt_1d is_ascii_fmt_06d)

lemma is_ascii_halt_command: "is_ascii (halt_command n)"
  by (simp add: halt_command_def is_ascii_fmt_1d)

lemma is_ascii_status_command: "is_ascii (status_command n)"
  by (simp add: status_command_def is_ascii_fmt_1d)


subsection \<open>What the operations of the focuser leave unchanged\<close>

lemma evolves_refl [simp]: "evolves s s"
  by (simp add: evolves_def)

lemma evolves_trans: "evolves a b \<Longrightarrow> evolves b c \<Longrightarrow> evolves a c"
  by (auto simp: evolves_def)

lemma evolves_log_msg [simp]: "evolves s (log_msg l m s)"
  by (simp add: evolves_def log_msg_def sent_def)

lemma evolves_warn [simp]: "evolves s (warn m s)"
  by (simp add: evolves_def warn_def sent_def)

lemma evolves_fields [simp]:
  "evolves s (s\<lparr>u_hub_info := a\<rparr>)"
  "evolves s (s\<lparr>u_focuser_config := a\<rparr>)"
  "evolves s (s\<lparr>u_focuser_status := a\<rparr>)"
  "evolves s (s\<lparr>u_position := i\<rparr>)"
  "evolves s (s\<lparr>u_target_position := i\<rparr>)"
  "evolves s (s\<lparr>u_is_moving := b\<rparr>)"
  "evolves s (s\<lparr>u_temperature := t\<rparr>)"
  "evolves s (s\<lparr>model := m\<rparr>)"
  by (simp_all add: evolves_def sent_def)

text \<open>\<open>_send_command\<close> assigns nothing but the port, and what it writes is the command.\<close>

lemma u_send_command_state:
  assumes "u_send_command c t h s = (r, s')"
  shows "\<exists>q. s' = s\<lparr>u_serial_port := q\<rparr>"
proof (cases "u_serial_port s")
  case None
  with assms have "s' = s\<lparr>u_serial_port := None\<rparr>" by (simp add: u_send_command_def)
  then show ?thesis ..
next
  case (Some p)
  with assms show ?thesis by (auto simp: u_send_command_def split: prod.splits)
qed

lemma u_send_command_sent:
  assumes "u_send_command c t h s = (r, s')" and "u_serial_port s \<noteq> None"
  shows "sent s' = (if is_ascii c then sent s @ [c] else sent s)"
    and "u_serial_port s' \<noteq> None"
proof -
  from assms obtain p where p: "u_serial_port s = Some p" by auto
  obtain x p' where sp: "send_command_port c t h p = (x, p')"
    by (cases "send_command_port c t h p")
  with assms p have s': "s' = s\<lparr>u_serial_port := Some p'\<rparr>"
    by (simp add: u_send_command_def)
  from send_command_port_written [OF sp] p s'
  show "sent s' = (if is_ascii c then sent s @ [c] else sent s)"
    by (simp add: sent_def)
  from s' show "u_serial_port s' \<noteq> None" by simp
qed

lemma u_send_command_no_port:
  "u_serial_port s = None \<Longrightarrow> u_send_command c t h s = (Inl AttributeError, s)"
  by (simp add: u_send_command_def)

lemma u_send_command_evolves:
  assumes "u_send_command c t h s = (r, s')"
  shows "evolves s s'"
proof (cases "u_serial_port s")
  case None
  with assms show ?thesis by (simp add: u_send_command_no_port)
next
  case (Some p)
  with u_send_command_sent [OF assms]
  have a: "prefix (sent s) (sent s')" and b: "u_serial_port s' \<noteq> None" by auto
  from u_send_command_state [OF assms] obtain q where "s' = s\<lparr>u_serial_port := q\<rparr>" ..
  then have "u_min_position s' = u_min_position s" "u_max_position s' = u_max_position s"
    "u_focuser_number s' = u_focuser_number s" "name s' = name s" "port s' = port s"
    "warnings s' = warnings s" "logger s' = logger s"
    by simp_all
  with a b Some show ?thesis by (simp add: evolves_def)
qed

lemma u_get_info_evolves:
  assumes "u_get_info c h s = (r, s')"
  shows "evolves s s'"
proof -
  obtain x s1 where sc: "u_send_command c ''GET INFO'' (Some h) s = (x, s1)"
    by (cases "u_send_command c ''GET INFO'' (Some h) s")
  then have e1: "evolves s s1" by (rule u_send_command_evolves)
  show ?thesis
  proof (cases x)
    case (Inl e)
    have "evolves s1 s'"
      using assms sc Inl
      by (cases e) (auto simp: u_get_info_def intro: evolves_trans [OF evolves_log_msg evolves_warn])
    with e1 show ?thesis by (rule evolves_trans)
  next
    case (Inr info)
    with assms sc have "s' = s1" by (simp add: u_get_info_def)
    with e1 show ?thesis by simp
  qed
qed

lemma u_set_param_evolves:
  assumes "u_set_param c s = (r, s')"
  shows "evolves s s'"
proof -
  obtain x s1 where sc: "u_send_command c ''SET PARAM'' None s = (x, s1)"
    by (cases "u_send_command c ''SET PARAM'' None s")
  then have e1: "evolves s s1" by (rule u_send_command_evolves)
  show ?thesis
  proof (cases x)
    case (Inl e)
    have "evolves s1 s'"
      using assms sc Inl
      by (cases e) (auto simp: u_set_param_def intro: evolves_trans [OF evolves_log_msg evolves_warn])
    with e1 show ?thesis by (rule evolves_trans)
  next
    case (Inr info)
    with assms sc have "s' = s1" by (simp add: u_set_param_def)
    with e1 show ?thesis by simp
  qed
qed

lemma u_get_hub_info_evolves:
  assumes "u_get_hub_info s = (r, s')"
  shows "evolves s s'"
proof -
  obtain x s1 where gi: "u_get_info ''<FHGETHUBINFO>'' ''HUB INFO'' s = (x, s1)"
    by (cases "u_get_info ''<FHGETHUBINFO>'' ''HUB INFO'' s")
  then have e1: "evolves s s1" by (rule u_get_info_evolves)
  from assms gi have "evolves s1 s'"
    by (cases x) (auto simp: u_get_hub_info_def)
  with e1 show ?thesis by (rule evolves_trans)
qed

lemma u_get_focuser_config_evolves:
  assumes "u_get_focuser_config s = (r, s')"
  shows "evolves s s'"
proof -
  let ?c = "''<F'' @ fmt_1d (u_focuser_number s) @ ''GETCONFIG>''"
  let ?h = "''CONFIG'' @ fmt_1d (u_focuser_number s)"
  obtain x s1 where gi: "u_get_info ?c ?h s = (x, s1)" by (cases "u_get_info ?c ?h s")
  then have e1: "evolves s s1" by (rule u_get_info_evolves)
  from assms gi have "evolves s1 s'"
    by (cases x) (auto simp: u_get_focuser_config_def)
  with e1 show ?thesis by (rule evolves_trans)
qed

lemma evolves_status_fields:
  "evolves s (s\<lparr>u_focuser_status := a, u_position := i\<rparr>)"
  "evolves s (s\<lparr>u_focuser_status := a, u_position := i, u_target_position := j\<rparr>)"
  "evolves s (s\<lparr>u_focuser_status := a, u_position := i, u_target_position := j,
                 u_is_moving := b\<rparr>)"
  "evolves s (s\<lparr>u_focuser_status := a, u_position := i, u_target_position := j,
                 u_is_moving := b, u_temperature := t\<rparr>)"
  by (simp_all add: evolves_def sent_def)

lemma u_update_focuser_status_evolves:
  assumes "u_update_focuser_status s = (r, s')"
  shows "evolves s s'"
proof -
  let ?c = "status_command (u_focuser_number s)"
  let ?h = "''STATUS'' @ fmt_1d (u_focuser_number s)"
  obtain x s1 where gi: "u_get_info ?c ?h s = (x, s1)" by (cases "u_get_info ?c ?h s")
  then have e1: "evolves s s1" by (rule u_get_info_evolves)
  from assms gi have "evolves s1 s'"
    by (cases x)
       (auto simp: u_update_focuser_status_def evolves_status_fields split: sum.splits)
  with e1 show ?thesis by (rule evolves_trans)
qed

lemma position_evolves: "position s = (r, s') \<Longrightarrow> evolves s s'"
  by (auto simp: position_def split: prod.splits sum.splits dest: u_update_focuser_status_evolves)

lemma is_moving_evolves: "is_moving s = (r, s') \<Longrightarrow> evolves s s'"
  by (auto simp: is_moving_def split: prod.splits sum.splits dest: u_update_focuser_status_evolves)

lemma temperature_evolves: "temperature s = (r, s') \<Longrightarrow> evolves s s'"
  by (auto simp: temperature_def)

lemma wait_while_moving_evolves: "wait_while_moving s = (r, s') \<Longrightarrow> evolves s s'"
proof (induction s arbitrary: r s' rule: wait_while_moving.induct)
  case (1 s)
  obtain x s1 where im: "is_moving s = (x, s1)" by (cases "is_moving s")
  then have e1: "evolves s s1" by (rule is_moving_evolves)
  note unf = wait_while_moving.simps [of s]
  show ?case
  proof (cases x)
    case (Inl e)
    with "1.prems" im unf have "s' = s1" by simp
    with e1 show ?thesis by simp
  next
    case (Inr moving)
    show ?thesis
    proof (cases moving)
      case True
      with "1.prems" im Inr unf have "wait_while_moving s1 = (r, s')" by simp
      with "1.IH" [of x s1 moving r s'] im Inr True have "evolves s1 s'" by simp
      with e1 show ?thesis by (rule evolves_trans)
    next
      case False
      with "1.prems" im Inr unf have "s' = s1" by simp
      with e1 show ?thesis by simp
    qed
  qed
qed

lemma clamp_position_evolves: "clamp_position p s = (t, s') \<Longrightarrow> evolves s s'"
  by (auto simp: clamp_position_def split: if_splits
        intro: evolves_trans [OF evolves_log_msg evolves_warn])

lemma move_to_evolves:
  assumes "move_to p b s = (r, s')"
  shows "evolves s s'"
proof -
  obtain t s1 where cp: "clamp_position p s = (t, s1)" by (cases "clamp_position p s")
  then have e1: "evolves s s1" by (rule clamp_position_evolves)
  show ?thesis
  proof (cases "uid s1")
    case (Inl e)
    with assms cp have "s' = s1" by (simp add: move_to_def)
    with e1 show ?thesis by simp
  next
    case (Inr nick)
    let ?s1' = "log_msg DEBUG (''Moving focuser '' @ nick @ '' to '' @ str_int t) s1"
    let ?c = "move_command (u_focuser_number s1) t"
    obtain x s2 where sc: "u_send_command ?c ''MOVE'' None ?s1' = (x, s2)"
      by (cases "u_send_command ?c ''MOVE'' None ?s1'")
    have e2: "evolves s s2"
      using e1 evolves_log_msg u_send_command_evolves [OF sc] by (blast intro: evolves_trans)
    show ?thesis
    proof (cases x)
      case (Inl e)
      with assms cp Inr sc have "s' = s2" by (simp add: move_to_def)
      with e2 show ?thesis by simp
    next
      case ok: (Inr y)
      show ?thesis
      proof (cases b)
        case False
        with assms cp Inr sc ok have "s' = s2" by (simp add: move_to_def)
        with e2 show ?thesis by simp
      next
        case True
        obtain w s3 where ww: "wait_while_moving s2 = (w, s3)" by (cases "wait_while_moving s2")
        have e3: "evolves s s3" using e2 wait_while_moving_evolves [OF ww] by (rule evolves_trans)
        show ?thesis
        proof (cases w)
          case (Inl e)
          with assms cp Inr sc ok True ww have "s' = s3" by (simp add: move_to_def)
          with e3 show ?thesis by simp
        next
          case wok: (Inr z)
          obtain v s4 where po: "position s3 = (v, s4)" by (cases "position s3")
          have e4: "evolves s s4" using e3 position_evolves [OF po] by (rule evolves_trans)
          show ?thesis
          proof (cases v)
            case (Inl e)
            with assms cp Inr sc ok True ww wok po have "s' = s4" by (simp add: move_to_def)
            with e4 show ?thesis by simp
          next
            case pok: (Inr pos)
            from assms cp Inr sc ok True ww wok po pok have "evolves s4 s'"
              by (auto simp: move_to_def split: if_splits sum.splits
                    intro: evolves_trans [OF evolves_log_msg evolves_warn])
            with e4 show ?thesis by (rule evolves_trans)
          qed
        qed
      qed
    qed
  qed
qed

lemma halt_evolves: "halt s = (r, s') \<Longrightarrow> evolves s s'"
  by (auto simp: halt_def split: prod.splits sum.splits
        dest!: u_send_command_evolves intro: evolves_trans [OF _ evolves_log_msg])

lemma uid_setter_evolves:
  assumes "uid_setter nickname s = (r, s')"
  shows "evolves s s'"
proof -
  obtain n s1 where tr: "(if length nickname > 16
            then (take 16 nickname,
                  log_msg WARNING (''Truncated nickname '' @ nickname @ '' to '' @ take 16 nickname
                                     @ '' (must be <= 16 characters)'') s)
            else (nickname, s)) = (n, s1)" by fastforce
  then have e1: "evolves s s1" by (auto split: if_splits)
  let ?c = "''<F'' @ fmt_1d (u_focuser_number s1) @ ''SCNN'' @ n @ ''>''"
  obtain x s2 where sp: "u_set_param ?c s1 = (x, s2)" by (cases "u_set_param ?c s1")
  have e2: "evolves s s2" using e1 u_set_param_evolves [OF sp] by (rule evolves_trans)
  show ?thesis
  proof (cases x)
    case (Inl e)
    with assms tr sp have "s' = s2" by (simp add: uid_setter_def)
    with e2 show ?thesis by simp
  next
    case (Inr y)
    with assms tr sp have "u_get_focuser_config s2 = (r, s')" by (simp add: uid_setter_def)
    from e2 u_get_focuser_config_evolves [OF this] show ?thesis by (rule evolves_trans)
  qed
qed

lemma position_setter_evolves: "position_setter p s = (r, s') \<Longrightarrow> evolves s s'"
  by (auto simp: position_setter_def split: prod.splits sum.splits dest: move_to_evolves)

lemma init_initial_position_evolves: "init_initial_position ip s = (r, s') \<Longrightarrow> evolves s s'"
  by (auto simp: init_initial_position_def split: option.splits dest: position_setter_evolves)



lemma init_min_position_fields [simp]:
  "u_min_position (init_min_position mn s) = (if mn \<ge> 0 then mn else 0)"
  "u_max_position (init_min_position mn s) = u_max_position s"
  by (simp_all add: init_min_position_def warn_def)

lemma Focuser_new_Inr:
  assumes "Focuser_new serial_Serial nm mdl prt ip fnum mn mx = Inr s"
  obtains s2 s3 where
    "Focuser_init_device serial_Serial nm mdl prt fnum = (Inr (), s2)"
    "init_max_position mx (init_min_position mn s2) = (Inr (), s3)"
    "init_initial_position ip s3 = (Inr (), s)"
  using assms
  by (auto simp: Focuser_new_def Focuser_init_def split: prod.splits sum.splits)

lemma init_max_position_Inr:
  assumes "init_max_position mx s = (Inr u, s')"
  shows "u_min_position s' = u_min_position s"
    and "u_max_position s' =
           (case mx of None \<Rightarrow> u_max_position s
            | Some m \<Rightarrow> if m \<le> u_max_position s then m else u_max_position s)"
    and "mx = Some (u_max_position s') \<Longrightarrow> u_min_position s' < u_max_position s'"
proof -
  consider (none) "mx = None" "s' = s"
    | (narrow) m where "mx = Some m" "m \<le> u_max_position s" "m > u_min_position s"
        "s' = s\<lparr>u_max_position := m\<rparr>"
    | (widen) m where "mx = Some m" "\<not> m \<le> u_max_position s"
        "s' = warn (widen_message m (u_max_position s)) s"
    using assms by (auto simp: init_max_position_def split: option.splits if_splits)
  then have "u_min_position s' = u_min_position s \<and>
    u_max_position s' =
           (case mx of None \<Rightarrow> u_max_position s
            | Some m \<Rightarrow> if m \<le> u_max_position s then m else u_max_position s) \<and>
    (mx = Some (u_max_position s') \<longrightarrow> u_min_position s' < u_max_position s')"
    by cases (simp_all add: warn_def)
  then show "u_min_position s' = u_min_position s"
    and "u_max_position s' =
           (case mx of None \<Rightarrow> u_max_position s
            | Some m \<Rightarrow> if m \<le> u_max_position s then m else u_max_position s)"
    and "mx = Some (u_max_position s') \<Longrightarrow> u_min_position s' < u_max_position s'"
    by blast+
qed

subsection \<open>Acknowledgments\<close>

lemma read_first_line:
  "read_response (port_write c (reset_input_buffer (reset_output_buffer p))) =
     (if is_ascii (first_line p) then Inr (strip (first_line p)) else Inl UnicodeDecodeError,
      snd (readline (port_write c (reset_input_buffer (reset_output_buffer p)))))"
  by (simp add: read_response_def readline_def port_write_def reset_input_buffer_def
        reset_output_buffer_def first_line_def is_ascii_def strip_def split: list.splits)

lemma send_command_port_bad_ack:
  assumes "is_ascii c" and "is_ascii (first_line p)" and "strip (first_line p) \<noteq> ''!''"
  shows "fst (send_command_port c t h p) = Inl (RuntimeError (strip (first_line p)))"
  using assms by (simp add: send_command_port_def Let_def read_first_line)


lemma u_send_command_fst:
  "u_serial_port s = Some p \<Longrightarrow>
     fst (u_send_command c t h s) = fst (send_command_port c t h p)"
  by (simp add: u_send_command_def split: prod.splits)

lemma clamp_position_fields:
  "uid (snd (clamp_position p s)) = uid s"
  "u_serial_port (snd (clamp_position p s)) = u_serial_port s"
  "u_focuser_number (snd (clamp_position p s)) = u_focuser_number s"
  "sent (snd (clamp_position p s)) = sent s"
  by (simp_all add: clamp_position_def uid_def warn_def log_msg_def sent_def)

lemma move_to_after_send:
  assumes "uid s = Inr nick"
    and t_def: "t = fst (clamp_position p s)"
    and s1_def: "s1 = log_msg DEBUG (''Moving focuser '' @ nick @ '' to '' @ str_int t)
                   (snd (clamp_position p s))"
    and sc: "u_send_command (move_command (u_focuser_number s) t) ''MOVE'' None s1 = (x, s2)"
  shows "evolves s2 (snd (move_to p b s))"
    and "x = Inl e \<Longrightarrow> fst (move_to p b s) = Inl e"
    and "x = Inr y \<Longrightarrow> fst (move_to p False s) = Inr t"
proof -
  obtain t' s0 where cp: "clamp_position p s = (t', s0)" by (cases "clamp_position p s")
  with t_def s1_def have t: "t' = t"
    and s1: "s1 = log_msg DEBUG (''Moving focuser '' @ nick @ '' to '' @ str_int t) s0"
    by simp_all
  from cp clamp_position_fields [of p s] assms(1) have u0: "uid s0 = Inr nick"
    and n0: "u_focuser_number s0 = u_focuser_number s" by simp_all
  have mv: "move_to p b s =
      (case x of
        Inl e \<Rightarrow> (Inl e, s2)
      | Inr _ \<Rightarrow>
          if b then
            (case wait_while_moving s2 of
               (Inl e, s3) \<Rightarrow> (Inl e, s3)
             | (Inr _, s3) \<Rightarrow>
            (case position s3 of
               (Inl e, s4) \<Rightarrow> (Inl e, s4)
             | (Inr pos, s4) \<Rightarrow>
                 if pos \<noteq> u_target_position s4 then
                   (case uid s4 of
                      Inl e \<Rightarrow> (Inl e, s4)
                    | Inr nick' \<Rightarrow>
                        (Inr (u_position s4),
                         warn (missed_message nick' (u_target_position s4) (u_position s4))
                           (log_msg WARNING
                              (missed_message nick' (u_target_position s4) (u_position s4)) s4)))
                 else (Inr (u_position s4), s4)))
          else (Inr t, s2))" for b
    using cp t s1 u0 n0 sc by (simp add: move_to_def)
  show "x = Inl e \<Longrightarrow> fst (move_to p b s) = Inl e" by (simp add: mv)
  show "x = Inr y \<Longrightarrow> fst (move_to p False s) = Inr t" by (simp add: mv)
  show "evolves s2 (snd (move_to p b s))"
  proof (cases x)
    case (Inl e)
    then show ?thesis by (simp add: mv)
  next
    case ok: (Inr y)
    show ?thesis
    proof (cases b)
      case False
      with ok show ?thesis by (simp add: mv)
    next
      case True
      obtain w s3 where ww: "wait_while_moving s2 = (w, s3)" by (cases "wait_while_moving s2")
      have e3: "evolves s2 s3" using ww by (rule wait_while_moving_evolves)
      show ?thesis
      proof (cases w)
        case (Inl e)
        with ok True ww e3 show ?thesis by (simp add: mv)
      next
        case wok: (Inr z)
        obtain v s4 where po: "position s3 = (v, s4)" by (cases "position s3")
        have e4: "evolves s2 s4" using e3 position_evolves [OF po] by (rule evolves_trans)
        show ?thesis
        proof (cases v)
          case (Inl e)
          with ok True ww wok po e4 show ?thesis by (simp add: mv)
        next
          case pok: (Inr pos)
          have "evolves s4 (snd (move_to p b s))"
            using ok True ww wok po pok
            by (auto simp: mv split: if_splits sum.splits
                  intro: evolves_trans [OF evolves_log_msg evolves_warn])
          with e4 show ?thesis by (rule evolves_trans)
        qed
      qed
    qed
  qed
qed




lemma send_command_port_undecodable:
  assumes "is_ascii c" and "\<not> is_ascii (first_line p)"
  shows "fst (send_command_port c t h p) = Inl UnicodeDecodeError"
  using assms by (simp add: send_command_port_def Let_def read_first_line)

lemma move_to_send_error:
  assumes "u_serial_port s = Some prt" and "uid s = Inr nick"
    and "\<And>c. is_ascii c \<Longrightarrow> fst (send_command_port c ''MOVE'' None prt) = Inl e"
  shows "fst (move_to p b s) = Inl e"
proof -
  let ?t = "fst (clamp_position p s)"
  let ?s1 = "log_msg DEBUG (''Moving focuser '' @ nick @ '' to '' @ str_int ?t)
               (snd (clamp_position p s))"
  let ?c = "move_command (u_focuser_number s) ?t"
  obtain x s2 where sc: "u_send_command ?c ''MOVE'' None ?s1 = (x, s2)"
    by (cases "u_send_command ?c ''MOVE'' None ?s1")
  have "u_serial_port ?s1 = Some prt"
    using assms(1) clamp_position_fields(2) [of p s] by (simp add: log_msg_def)
  from u_send_command_fst [OF this, of ?c "''MOVE''" None] assms(3) [OF is_ascii_move_command] sc
  have "x = Inl e" by simp
  then show ?thesis by (rule move_to_after_send(2) [OF assms(2) refl refl sc])
qed

lemma halt_send_error:
  assumes "u_serial_port s = Some prt"
    and "\<And>c. is_ascii c \<Longrightarrow> fst (send_command_port c ''HALT'' None prt) = Inl e"
  shows "fst (halt s) = Inl e"
proof -
  let ?c = "halt_command (u_focuser_number s)"
  obtain x s1 where sc: "u_send_command ?c ''HALT'' None s = (x, s1)"
    by (cases "u_send_command ?c ''HALT'' None s")
  with u_send_command_fst [OF assms(1), of ?c "''HALT''" None] assms(2) [OF is_ascii_halt_command]
  have "x = Inl e" by simp
  with sc show ?thesis by (simp add: halt_def)
qed

lemma u_get_info_caught:
  assumes "u_serial_port s = Some prt"
    and "fst (send_command_port c ''GET INFO'' (Some hdr) prt) = Inl (RuntimeError l)"
  shows "fst (u_get_info c hdr s) = Inr None"
    and "warnings (snd (u_get_info c hdr s)) = warnings s @ [setting_message c l]"
    and "logger (snd (u_get_info c hdr s)) = logger s @ [(ERROR, setting_message c l)]"
proof -
  obtain x s1 where sc: "u_send_command c ''GET INFO'' (Some hdr) s = (x, s1)"
    by (cases "u_send_command c ''GET INFO'' (Some hdr) s")
  with u_send_command_fst [OF assms(1), of c "''GET INFO''" "Some hdr"] assms(2)
  have x: "x = Inl (RuntimeError l)" by simp
  from u_send_command_state [OF sc] obtain q where "s1 = s\<lparr>u_serial_port := q\<rparr>" ..
  then have "warnings s1 = warnings s" "logger s1 = logger s" by simp_all
  with sc x show "fst (u_get_info c hdr s) = Inr None"
    and "warnings (snd (u_get_info c hdr s)) = warnings s @ [setting_message c l]"
    and "logger (snd (u_get_info c hdr s)) = logger s @ [(ERROR, setting_message c l)]"
    by (simp_all add: u_get_info_def warn_def log_msg_def)
qed

lemma u_set_param_caught:
  assumes "u_serial_port s = Some prt"
    and "fst (send_command_port c ''SET PARAM'' None prt) = Inl (RuntimeError l)"
  shows "fst (u_set_param c s) = Inr ()"
    and "warnings (snd (u_set_param c s)) = warnings s @ [setting_message c l]"
    and "logger (snd (u_set_param c s)) = logger s @ [(ERROR, setting_message c l)]"
proof -
  obtain x s1 where sc: "u_send_command c ''SET PARAM'' None s = (x, s1)"
    by (cases "u_send_command c ''SET PARAM'' None s")
  with u_send_command_fst [OF assms(1), of c "''SET PARAM''" None] assms(2)
  have x: "x = Inl (RuntimeError l)" by simp
  from u_send_command_state [OF sc] obtain q where "s1 = s\<lparr>u_serial_port := q\<rparr>" ..
  then have "warnings s1 = warnings s" "logger s1 = logger s" by simp_all
  with sc x show "fst (u_set_param c s) = Inr ()"
    and "warnings (snd (u_set_param c s)) = warnings s @ [setting_message c l]"
    and "logger (snd (u_set_param c s)) = logger s @ [(ERROR, setting_message c l)]"
    by (simp_all add: u_set_param_def warn_def log_msg_def)
qed

lemma undecodable_passes:
  assumes "u_serial_port s = Some prt"
  shows "fst (send_command_port c ''GET INFO'' (Some hdr) prt) = Inl UnicodeDecodeError \<Longrightarrow>
           fst (u_get_info c hdr s) = Inl UnicodeDecodeError"
    and "fst (send_command_port c ''SET PARAM'' None prt) = Inl UnicodeDecodeError \<Longrightarrow>
           fst (u_set_param c s) = Inl UnicodeDecodeError"
proof -
  assume a: "fst (send_command_port c ''GET INFO'' (Some hdr) prt) = Inl UnicodeDecodeError"
  obtain x s1 where sc: "u_send_command c ''GET INFO'' (Some hdr) s = (x, s1)"
    by (cases "u_send_command c ''GET INFO'' (Some hdr) s")
  with u_send_command_fst [OF assms, of c "''GET INFO''" "Some hdr"] a
  have "x = Inl UnicodeDecodeError" by simp
  with sc show "fst (u_get_info c hdr s) = Inl UnicodeDecodeError" by (simp add: u_get_info_def)
next
  assume a: "fst (send_command_port c ''SET PARAM'' None prt) = Inl UnicodeDecodeError"
  obtain x s1 where sc: "u_send_command c ''SET PARAM'' None s = (x, s1)"
    by (cases "u_send_command c ''SET PARAM'' None s")
  with u_send_command_fst [OF assms, of c "''SET PARAM''" None] a
  have "x = Inl UnicodeDecodeError" by simp
  with sc show "fst (u_set_param c s) = Inl UnicodeDecodeError" by (simp add: u_set_param_def)
qed

subsection \<open>Decoding of an info block\<close>

lemma length_split_on: "length (split_on d s) = Suc (count_list s d)"
  by (induction s) (auto split: list.splits)

lemma split_on_once:
  "count_list s d = 1 \<Longrightarrow>
     split_on d s = [takeWhile (\<lambda>c. c \<noteq> d) s, tl (dropWhile (\<lambda>c. c \<noteq> d) s)]"
proof (induction s)
  case Nil
  then show ?case by simp
next
  case (Cons c cs)
  show ?case
  proof (cases "c = d")
    case True
    with Cons.prems have "count_list cs d = 0" by simp
    then have "length (split_on d cs) = 1" by (simp add: length_split_on)
    moreover from \<open>count_list cs d = 0\<close> have "d \<notin> set cs" by (simp add: count_list_0_iff)
    then have "split_on d cs = [cs]"
      by (induction cs) (auto split: list.splits)
    ultimately show ?thesis using True by simp
  next
    case False
    with Cons show ?thesis by (auto split: list.splits)
  qed
qed

lemma count_list_dropWhile:
  "\<not> P c \<Longrightarrow> count_list (dropWhile P xs) c = count_list xs c"
  by (induction xs) auto

lemma count_list_strip: "\<not> py_isspace c \<Longrightarrow> count_list (strip s) c = count_list s c"
  by (simp add: strip_def count_list_rev count_list_dropWhile)

lemma equals_not_space: "\<not> py_isspace CHR ''=''"
  by (simp add: py_isspace_def)

lemma unpack_two:
  "length xs \<noteq> 2 \<Longrightarrow> (case xs of [k, v] \<Rightarrow> f k v | _ \<Rightarrow> g) = g"
  by (auto split: list.splits)

lemma info_loop_malformed:
  assumes "malformed l"
  shows "info_loop (strip l) info p = (Inl ValueError, p)"
proof -
  from assms have "count_list (strip l) CHR ''='' \<noteq> 1" and ne: "strip l \<noteq> ''END''"
    by (simp_all add: malformed_def count_list_strip equals_not_space)
  then have "length (map strip (split_on CHR ''='' (strip l))) \<noteq> 2"
    by (simp add: length_split_on)
  with ne show ?thesis
    by (subst info_loop.simps) (simp add: unpack_two)
qed

lemma info_loop_well_formed:
  assumes "well_formed l"
  shows "info_loop (strip l) info p =
     (case read_response p of
        (Inl e, p') \<Rightarrow> (Inl e, p')
      | (Inr response', p') \<Rightarrow>
          info_loop response'
            (AList.update (fst (spec_key_value (strip l))) (snd (spec_key_value (strip l))) info) p')"
proof -
  from assms have one: "count_list (strip l) CHR ''='' = 1" and ne: "strip l \<noteq> ''END''"
    by (simp_all add: well_formed_def count_list_strip equals_not_space)
  from split_on_once [OF one]
  have "map strip (split_on CHR ''='' (strip l)) =
      [fst (spec_key_value (strip l)), snd (spec_key_value (strip l))]"
    by (simp add: spec_key_value_def)
  with ne show ?thesis
    by (subst info_loop.simps) simp
qed

lemma read_response_Cons:
  "in_buffer p = l # ls \<Longrightarrow> is_ascii l \<Longrightarrow>
     read_response p = (Inr (strip l), p\<lparr>in_buffer := ls\<rparr>)"
  by (simp add: read_response_def readline_def)

lemma info_loop_END: "info_loop ''END'' info p = (Inr info, p)"
  by (subst info_loop.simps) simp

lemma info_loop_body:
  assumes "well_formed l" and "\<forall>x\<in>set ls. well_formed x"
    and "is_ascii e" and "strip e = ''END''" and "in_buffer p = ls @ e # rest"
  shows "fst (info_loop (strip l) info p) =
     Inr (foldl (\<lambda>d l. AList.update (fst (spec_key_value (strip l)))
                          (snd (spec_key_value (strip l))) d) info (l # ls))"
  using assms
proof (induction ls arbitrary: l info p)
  case Nil
  then show ?case
    by (simp add: info_loop_well_formed read_response_Cons info_loop_END)
next
  case (Cons x xs)
  from Cons.prems have x: "well_formed x" "is_ascii x" by (simp_all add: well_formed_def)
  from Cons.prems have rd: "read_response p = (Inr (strip x), p\<lparr>in_buffer := xs @ e # rest\<rparr>)"
    using x by (simp add: read_response_Cons)
  have "fst (info_loop (strip x)
          (AList.update (fst (spec_key_value (strip l))) (snd (spec_key_value (strip l))) info)
          (p\<lparr>in_buffer := xs @ e # rest\<rparr>)) =
        Inr (foldl (\<lambda>d l. AList.update (fst (spec_key_value (strip l)))
                          (snd (spec_key_value (strip l))) d)
               (AList.update (fst (spec_key_value (strip l))) (snd (spec_key_value (strip l))) info)
               (x # xs))"
    using Cons.prems x by (intro Cons.IH) simp_all
  with Cons.prems(1) rd show ?case
    by (simp add: info_loop_well_formed)
qed

lemma info_loop_bad_body:
  assumes "well_formed l" and "\<forall>x\<in>set ls. well_formed x"
    and "malformed bad" and "in_buffer p = ls @ bad # rest"
  shows "fst (info_loop (strip l) info p) = Inl ValueError"
  using assms
proof (induction ls arbitrary: l info p)
  case Nil
  then have "is_ascii bad" by (simp add: malformed_def)
  with Nil show ?case
    by (simp add: info_loop_well_formed read_response_Cons info_loop_malformed)
next
  case (Cons x xs)
  from Cons.prems have x: "well_formed x" "is_ascii x" by (simp_all add: well_formed_def)
  from Cons.prems have rd: "read_response p = (Inr (strip x), p\<lparr>in_buffer := xs @ bad # rest\<rparr>)"
    using x by (simp add: read_response_Cons)
  have "fst (info_loop (strip x)
          (AList.update (fst (spec_key_value (strip l))) (snd (spec_key_value (strip l))) info)
          (p\<lparr>in_buffer := xs @ bad # rest\<rparr>)) = Inl ValueError"
    using Cons.prems x by (intro Cons.IH) simp_all
  with Cons.prems(1) rd show ?case
    by (simp add: info_loop_well_formed)
qed


lemma send_command_port_info:
  assumes "is_ascii c" and "replies p = (ack # hdr # lines) # rs"
    and "is_ascii ack" and "strip ack = ''!''" and "is_ascii hdr" and "strip hdr = h"
  shows "send_command_port c ''GET INFO'' (Some h) p =
     (case read_response (p\<lparr>written := written p @ [c], in_buffer := lines, replies := rs\<rparr>) of
        (Inl e, p5) \<Rightarrow> (Inl e, p5)
      | (Inr first, p5) \<Rightarrow>
          (case info_loop first [] p5 of
             (Inl e, p6) \<Rightarrow> (Inl e, p6)
           | (Inr info, p6) \<Rightarrow> (Inr (Some info), p6)))"
proof -
  let ?p2 = "port_write c (reset_input_buffer (reset_output_buffer p))"
  let ?p4 = "p\<lparr>written := written p @ [c], in_buffer := lines, replies := rs\<rparr>"
  from assms(2) have b2: "in_buffer ?p2 = ack # hdr # lines"
    by (simp add: port_write_def reset_input_buffer_def reset_output_buffer_def)
  from read_response_Cons [OF b2 assms(3)] assms(4)
  have r3: "read_response ?p2 = (Inr ''!'', ?p2\<lparr>in_buffer := hdr # lines\<rparr>)" by simp
  have "read_response (?p2\<lparr>in_buffer := hdr # lines\<rparr>) =
      (Inr h, ?p2\<lparr>in_buffer := hdr # lines\<rparr>\<lparr>in_buffer := lines\<rparr>)"
    using read_response_Cons [of "?p2\<lparr>in_buffer := hdr # lines\<rparr>" hdr lines] assms(5,6)
    by simp
  moreover from assms(2) have "?p2\<lparr>in_buffer := hdr # lines\<rparr>\<lparr>in_buffer := lines\<rparr> = ?p4"
    by (simp add: port_write_def reset_input_buffer_def reset_output_buffer_def)
  ultimately have r4: "read_response (?p2\<lparr>in_buffer := hdr # lines\<rparr>) = (Inr h, ?p4)"
    by simp
  from assms(1) r3 r4 show ?thesis
    by (simp add: send_command_port_def Let_def)
qed

lemma wrap_info_fst:
  "fst r = Inr i \<Longrightarrow>
     fst (case r of (Inl e, p6) \<Rightarrow> (Inl e, p6) | (Inr info, p6) \<Rightarrow> (Inr (Some info), p6)) =
       Inr (Some i)"
  "fst r = Inl e' \<Longrightarrow>
     fst (case r of (Inl e, p6) \<Rightarrow> (Inl e, p6) | (Inr info, p6) \<Rightarrow> (Inr (Some info), p6)) =
       Inl e'"
  by (cases r; simp)+

section \<open>The claims about the focuser and the mount\<close>

subsection \<open>Reading the derived properties\<close>

text \<open>
  C3 says that every read of \<open>position\<close>, \<open>temperature\<close> and \<open>is_moving\<close> performs a fresh
  status query and returns its value. The getter of \<open>temperature\<close> names
  \<open>self._update_focuser_status\<close> without calling it. On a focuser initialised when the
  device reported +21.7 degrees, with the device now ready to report +25.0, reading
  \<open>temperature\<close> sends nothing and returns +21.7; reading \<open>position\<close> sends the status
  query, after which the stored temperature is +25.0.
\<close>

theorem temperature_read_is_stale:
  "case Focuser_new (scripted_device (init_replies @ [status_reply ''+25.0'' ''3000'' ''3000'' ''0'']))
          ''FocusLynx Focuser'' ''FA'' ''/dev/ttyUSB0'' None 1 0 None of
     Inl e \<Rightarrow> False
   | Inr s \<Rightarrow>
       fst (temperature s) = Inr (PyFloat ''+21.7'') \<and> sent (snd (temperature s)) = sent s \<and>
       (case position s of
          (r, s') \<Rightarrow> sent s' = sent s @ [''<F1GETSTATUS>''] \<and> u_temperature s' = PyFloat ''+25.0'')"
  by code_simp

subsection \<open>Halting\<close>

text \<open>
  C10: \<open>halt()\<close> leaves the stored position, target position, moving flag, temperature and
  both bounds unchanged, as well as the stored status and configuration and the warnings.
  On an open port the only command it transmits is the halt command, and the only entry it
  adds to the log is the notice of the halt, when the device has confirmed it.
\<close>

theorem halt_leaves_state:
  "u_position (snd (halt s)) = u_position s \<and>
   u_target_position (snd (halt s)) = u_target_position s \<and>
   u_is_moving (snd (halt s)) = u_is_moving s \<and>
   u_temperature (snd (halt s)) = u_temperature s \<and>
   u_min_position (snd (halt s)) = u_min_position s \<and>
   u_max_position (snd (halt s)) = u_max_position s \<and>
   u_focuser_status (snd (halt s)) = u_focuser_status s \<and>
   u_focuser_config (snd (halt s)) = u_focuser_config s \<and>
   warnings (snd (halt s)) = warnings s \<and>
   sent (snd (halt s)) =
     (if u_serial_port s = None then sent s else sent s @ [halt_command (u_focuser_number s)]) \<and>
   logger (snd (halt s)) =
     (case (fst (halt s), uid s) of
        (Inr _, Inr nick) \<Rightarrow> logger s @ [(WARNING, ''Focuser '' @ nick @ '' halted'')]
      | _ \<Rightarrow> logger s)"
proof -
  let ?c = "halt_command (u_focuser_number s)"
  obtain r s1 where sc: "u_send_command ?c ''HALT'' None s = (r, s1)"
    by (cases "u_send_command ?c ''HALT'' None s")
  from u_send_command_state [OF sc] obtain q where s1: "s1 = s\<lparr>u_serial_port := q\<rparr>" ..
  have snt: "sent s1 = (if u_serial_port s = None then sent s else sent s @ [?c])"
  proof (cases "u_serial_port s")
    case None
    with sc show ?thesis by (simp add: u_send_command_no_port)
  next
    case (Some p)
    with u_send_command_sent(1) [OF sc] show ?thesis by (simp add: is_ascii_halt_command)
  qed
  from s1 have u: "uid s1 = uid s" by (simp add: uid_def)
  show ?thesis
  proof (cases r)
    case (Inl e)
    with sc have "halt s = (Inl e, s1)" by (simp add: halt_def)
    with s1 snt show ?thesis by simp
  next
    case (Inr x)
    show ?thesis
    proof (cases "uid s")
      case (Inl e)
      with sc Inr u have "halt s = (Inl e, s1)" by (simp add: halt_def)
      with s1 snt Inl show ?thesis by simp
    next
      case nick: (Inr nick)
      with sc Inr u have "halt s = (Inr (), log_msg WARNING (''Focuser '' @ nick @ '' halted'') s1)"
        by (simp add: halt_def)
      with s1 snt nick show ?thesis by (simp add: log_msg_def sent_def)
    qed
  qed
qed

subsection \<open>Construction of the focuser when the port cannot be opened\<close>

text \<open>
  C6: if opening the serial port fails, \<open>Focuser(...)\<close> raises, so the caller receives no
  object: \<open>NameError\<close> out of the handler for the two serial exceptions, the exception
  itself otherwise. When the constructor is left, the object differs from what the base
  class built in its log only: no attribute has been initialised.
\<close>

theorem connect_failure_aborts_construction:
  assumes "serial_Serial prt = Inl err"
  shows "Focuser_new serial_Serial nm mdl prt ip fnum mn mx =
           Inl (if err = SerialException \<or> err = SerialTimeoutException then NameError else err) \<and>
         snd (Focuser_init serial_Serial nm mdl prt ip fnum mn mx) =
           (AbstractFocuser_init nm mdl prt)
             \<lparr>logger := logger (snd (Focuser_init serial_Serial nm mdl prt ip fnum mn mx))\<rparr>"
  using assms
  by (simp add: Focuser_new_def Focuser_init_def Focuser_init_device_def connect_def log_msg_def
        AbstractFocuser_init_def)

text \<open>C6 at a port that cannot be opened.\<close>

theorem connect_failure_aborts_construction_witness:
  "no_device SerialException ''/dev/ttyUSB0'' = Inl SerialException \<and>
   Focuser_new (no_device SerialException) ''FocusLynx Focuser'' ''FA'' ''/dev/ttyUSB0'' (Some 3000) 1 0
     (Some 6000) = Inl NameError"
proof -
  have h: "no_device SerialException ''/dev/ttyUSB0'' = Inl SerialException"
    by (simp add: no_device_def)
  from h connect_failure_aborts_construction [of "no_device SerialException" "''/dev/ttyUSB0''"
      SerialException "''FocusLynx Focuser''" "''FA''" "Some 3000" 1 0 "Some 6000"]
  have "Focuser_new (no_device SerialException) ''FocusLynx Focuser'' ''FA'' ''/dev/ttyUSB0''
          (Some 3000) 1 0 (Some 6000) = Inl NameError"
    by simp
  with h show ?thesis by simp
qed

subsection \<open>Construction of the mount without a slew command\<close>

text \<open>
  C5: for every command table without a \<open>slew\<close> entry the construction of a mount fails
  and no serial connection has been created when it fails. This holds for \<open>AbstractMount\<close>
  as written, whose call of \<open>setup_commands\<close> raises \<open>TypeError\<close> for every table, and for
  a class in which the first definition of \<open>setup_commands\<close> is the one in effect, where
  the \<open>assert\<close> on \<open>slew\<close> fails.
\<close>

theorem missing_slew_fails_construction:
  assumes "map_of table ''slew'' = None"
  shows "isl (fst (AbstractMount_init call_setup_commands config (Some table) c)) \<and>
         serial (snd (AbstractMount_init call_setup_commands config (Some table) c)) = None \<and>
         isl (fst (AbstractMount_init setup_commands_first config (Some table) c)) \<and>
         serial (snd (AbstractMount_init setup_commands_first config (Some table) c)) = None"
  using assms
  by (simp add: AbstractMount_init_def call_setup_commands_def setup_commands_first_def
        mount_log_def new_mount_def split: option.splits)

text \<open>C5 at a table that holds a park command only.\<close>

theorem missing_slew_fails_construction_witness:
  "map_of [(''park'', ''MP1''), (''cmd_pre'', '':'')] ''slew'' = None \<and>
   fst (AbstractMount_init call_setup_commands (Some [(''serial_port'', PyStr ''/dev/ttyUSB1'')])
          (Some [(''park'', ''MP1''), (''cmd_pre'', '':'')]) False) = Inl TypeError \<and>
   fst (AbstractMount_init setup_commands_first (Some [(''serial_port'', PyStr ''/dev/ttyUSB1'')])
          (Some [(''park'', ''MP1''), (''cmd_pre'', '':'')]) False) = Inl AssertionError"
proof -
  have h: "map_of [(''park'', ''MP1''), (''cmd_pre'', '':'')] ''slew'' = None" by simp
  note t = missing_slew_fails_construction [OF h,
      of "Some [(''serial_port'', PyStr ''/dev/ttyUSB1'')]" False]
  have a: "fst (AbstractMount_init call_setup_commands (Some [(''serial_port'', PyStr ''/dev/ttyUSB1'')])
          (Some [(''park'', ''MP1''), (''cmd_pre'', '':'')]) False) = Inl TypeError"
    using t by (simp add: AbstractMount_init_def call_setup_commands_def dict_get_def)
  have b: "fst (AbstractMount_init setup_commands_first (Some [(''serial_port'', PyStr ''/dev/ttyUSB1'')])
          (Some [(''park'', ''MP1''), (''cmd_pre'', '':'')]) False) = Inl AssertionError"
    using t by (simp add: AbstractMount_init_def setup_commands_first_def dict_get_def)
  from h a b show ?thesis by simp
qed

subsection \<open>Querying the mount for an unknown command\<close>

text \<open>
  C8 says that a query for a command name that is not in the table fails with an
  unknown-command error and transmits nothing. On the example mount the query \<open>bogus\<close>
  puts \<open>:None#\<close> on the wire and returns the (empty) response.
\<close>

theorem unknown_command_is_transmitted:
  "case serial_query ''bogus'' example_mount of
     (r, m) \<Rightarrow> r = Inr [] \<and> map_option wire (serial m) = Some ['':None#'']"
  by code_simp

text \<open>
  C8 as amended: for a command name that is not in the table, on a mount with a serial
  connection, \<open>serial_query\<close> does not fail; it transmits the wrapping tokens around the
  text \<open>None\<close> and returns the next response of the device.
\<close>

theorem unknown_command_sends_None:
  assumes "map_of (commands m) cmd = None" and "serial m = Some sd"
  shows "fst (serial_query cmd m) = Inr (fst (sd_read sd)) \<and>
         map_option wire (serial (snd (serial_query cmd m))) =
           Some (wire sd @ [u_pre_cmd m @ ''None'' @ u_post_cmd m])"
  using assms
  by (simp add: serial_query_def serial_send_def serial_read_def get_command_def mount_log_def
        sd_write_def sd_read_def split: list.splits)

text \<open>C8 as amended, on the example mount.\<close>

theorem unknown_command_sends_None_witness:
  "map_of (commands example_mount) ''bogus'' = None \<and>
   serial example_mount = Some (SerialData (PyStr ''/dev/ttyUSB1'')) \<and>
   fst (serial_query ''bogus'' example_mount) = Inr [] \<and>
   map_option wire (serial (snd (serial_query ''bogus'' example_mount))) = Some ['':None#'']"
proof -
  have h1: "map_of (commands example_mount) ''bogus'' = None" by code_simp
  have h2: "serial example_mount = Some (SerialData (PyStr ''/dev/ttyUSB1''))" by code_simp
  have p: "u_pre_cmd example_mount = '':''" "u_post_cmd example_mount = ''#''" by code_simp+
  from unknown_command_sends_None [OF h1 h2] p h1 h2 show ?thesis
    by (simp add: SerialData_def sd_read_def)
qed

subsection \<open>The bounds of the travel\<close>

text \<open>
  C9: after every construction that completes, \<open>min_position\<close> is not negative, and when
  the configured \<open>max_position\<close> was accepted (it is then the value of the property) the
  lower bound is below the upper one. Neither bound is changed by \<open>move_to\<close>, \<open>halt\<close>, a
  read of \<open>position\<close>, \<open>temperature\<close> or \<open>is_moving\<close>, or by setting the nickname, whether
  the operation succeeds or raises.
\<close>

theorem bounds_invariant:
  assumes "Focuser_new serial_Serial nm mdl prt ip fnum mn mx = Inr s"
  shows "0 \<le> min_position s \<and>
         (mx = Some (max_position s) \<longrightarrow> min_position s < max_position s) \<and>
         min_position (snd (move_to p b s)) = min_position s \<and>
         max_position (snd (move_to p b s)) = max_position s \<and>
         min_position (snd (halt s)) = min_position s \<and>
         max_position (snd (halt s)) = max_position s \<and>
         min_position (snd (position s)) = min_position s \<and>
         max_position (snd (position s)) = max_position s \<and>
         min_position (snd (temperature s)) = min_position s \<and>
         max_position (snd (temperature s)) = max_position s \<and>
         min_position (snd (is_moving s)) = min_position s \<and>
         max_position (snd (is_moving s)) = max_position s \<and>
         min_position (snd (uid_setter nickname s)) = min_position s \<and>
         max_position (snd (uid_setter nickname s)) = max_position s"
proof -
  from assms obtain s2 s3 where
    mxp: "init_max_position mx (init_min_position mn s2) = (Inr (), s3)" and
    ini: "init_initial_position ip s3 = (Inr (), s)"
    by (rule Focuser_new_Inr)
  from init_initial_position_evolves [OF ini]
  have same: "u_min_position s = u_min_position s3" "u_max_position s = u_max_position s3"
    by (simp_all add: evolves_def)
  from init_max_position_Inr(1) [OF mxp] same have "0 \<le> u_min_position s" by simp
  moreover from init_max_position_Inr(3) [OF mxp] same
  have "mx = Some (u_max_position s) \<longrightarrow> u_min_position s < u_max_position s" by simp
  moreover have "evolves s (snd (move_to p b s))"
    by (rule move_to_evolves [of p b s "fst (move_to p b s)"]) simp
  moreover have "evolves s (snd (halt s))"
    by (rule halt_evolves [of s "fst (halt s)"]) simp
  moreover have "evolves s (snd (position s))"
    by (rule position_evolves [of s "fst (position s)"]) simp
  moreover have "evolves s (snd (temperature s))"
    by (rule temperature_evolves [of s "fst (temperature s)"]) simp
  moreover have "evolves s (snd (is_moving s))"
    by (rule is_moving_evolves [of s "fst (is_moving s)"]) simp
  moreover have "evolves s (snd (uid_setter nickname s))"
    by (rule uid_setter_evolves [of nickname s "fst (uid_setter nickname s)"]) simp
  ultimately show ?thesis
    by (simp add: evolves_def min_position_def max_position_def)
qed

text \<open>C9 on the focuser constructed with the bounds 100 and 6000.\<close>

theorem bounds_invariant_witness:
  "Focuser_new (scripted_device init_replies) ''FocusLynx Focuser'' ''FA'' ''/dev/ttyUSB0''
     None 1 100 (Some 6000) = Inr narrowed_focuser \<and>
   min_position narrowed_focuser = 100 \<and> max_position narrowed_focuser = 6000 \<and>
   max_position (snd (move_to 8000 False narrowed_focuser)) = 6000 \<and>
   min_position (snd (uid_setter ''Guide'' narrowed_focuser)) = 100"
proof -
  have h: "Focuser_new (scripted_device init_replies) ''FocusLynx Focuser'' ''FA'' ''/dev/ttyUSB0''
     None 1 100 (Some 6000) = Inr narrowed_focuser"
    by code_simp
  have v: "min_position narrowed_focuser = 100" "max_position narrowed_focuser = 6000"
    by code_simp+
  from bounds_invariant [OF h, of 8000 False "''Guide''"] h v show ?thesis by simp
qed




subsection \<open>Moving to a position\<close>




subsection \<open>Acknowledgments that are not the expected one\<close>

text \<open>
  C2 says that a first response line other than \<open>!\<close> raises a protocol error that reaches
  the caller of every public operation, status reads and initialisation included. With
  the answer \<open>X\<close> to a status query, reading \<open>position\<close> or \<open>is_moving\<close> raises
  \<open>TypeError\<close>: \<open>_get_info\<close> has caught the \<open>RuntimeError\<close>, warned and returned \<open>None\<close>,
  which is then subscripted. With the answer \<open>X\<close> to the hub query the construction
  completes, with \<open>None\<close> as hub info.
\<close>

theorem bad_acknowledgment_of_query_is_swallowed:
  "(case Focuser_new (scripted_device (init_replies @ [[''X'']])) ''FocusLynx Focuser'' ''FA''
           ''/dev/ttyUSB0'' None 1 0 None of
      Inl e \<Rightarrow> False
    | Inr s \<Rightarrow>
        fst (position s) = Inl TypeError \<and> fst (is_moving s) = Inl TypeError \<and>
        warnings (snd (position s)) = [setting_message ''<F1GETSTATUS>'' ''X'']) \<and>
   (case Focuser_new (scripted_device ([''X''] # tl init_replies)) ''FocusLynx Focuser'' ''FA''
           ''/dev/ttyUSB0'' None 1 0 None of
      Inl e \<Rightarrow> False
    | Inr s \<Rightarrow> u_hub_info s = None \<and> warnings s = [setting_message ''<FHGETHUBINFO>'' ''X''])"
  by code_simp

text \<open>
  C2 as amended, for a command that is ASCII text (as every command the class builds is, a
  nickname with other characters apart) on an open port. When the first response line
  after the command is ASCII text other than \<open>!\<close> (after trimming; the empty line of a
  timeout included), \<open>_send_command\<close> raises \<open>RuntimeError\<close> with that line. The error
  reaches the caller of \<open>move_to\<close> (on a focuser whose configuration holds a nickname) and
  of \<open>halt\<close>. \<open>_get_info\<close>, through which initialisation and the status reads query the
  device, catches it, logs an error and emits a warning that both carry the line, and
  returns \<open>None\<close>; \<open>_set_param\<close> catches, logs and warns likewise. When the first response
  line is not ASCII text, decoding it raises \<open>UnicodeDecodeError\<close> instead, which no
  method catches: it reaches the caller of \<open>move_to\<close> and \<open>halt\<close> and passes through
  \<open>_get_info\<close> and \<open>_set_param\<close>.
\<close>

theorem bad_acknowledgment:
  assumes "u_serial_port s = Some prt"
  shows "(is_ascii (first_line prt) \<and> strip (first_line prt) \<noteq> ''!'' \<longrightarrow>
            (is_ascii c \<longrightarrow>
               fst (u_send_command c t h s) = Inl (RuntimeError (strip (first_line prt)))) \<and>
            (uid s = Inr nick \<longrightarrow>
               fst (move_to p b s) = Inl (RuntimeError (strip (first_line prt)))) \<and>
            fst (halt s) = Inl (RuntimeError (strip (first_line prt))) \<and>
            (is_ascii c \<longrightarrow>
               fst (u_get_info c hdr s) = Inr None \<and>
               warnings (snd (u_get_info c hdr s)) =
                 warnings s @ [setting_message c (strip (first_line prt))] \<and>
               logger (snd (u_get_info c hdr s)) =
                 logger s @ [(ERROR, setting_message c (strip (first_line prt)))] \<and>
               fst (u_set_param c s) = Inr () \<and>
               warnings (snd (u_set_param c s)) =
                 warnings s @ [setting_message c (strip (first_line prt))] \<and>
               logger (snd (u_set_param c s)) =
                 logger s @ [(ERROR, setting_message c (strip (first_line prt)))])) \<and>
         (\<not> is_ascii (first_line prt) \<longrightarrow>
            (is_ascii c \<longrightarrow> fst (u_send_command c t h s) = Inl UnicodeDecodeError) \<and>
            (uid s = Inr nick \<longrightarrow> fst (move_to p b s) = Inl UnicodeDecodeError) \<and>
            fst (halt s) = Inl UnicodeDecodeError \<and>
            (is_ascii c \<longrightarrow>
               fst (u_get_info c hdr s) = Inl UnicodeDecodeError \<and>
               fst (u_set_param c s) = Inl UnicodeDecodeError))"
proof -
  have first: ?thesis if a: "is_ascii (first_line prt)" and n: "strip (first_line prt) \<noteq> ''!''"
  proof -
    have port: "fst (send_command_port c' t' h' prt) = Inl (RuntimeError (strip (first_line prt)))"
      if "is_ascii c'" for c' t' h'
      using that a n by (rule send_command_port_bad_ack)
    from port [of c t h] assms
    have 1: "is_ascii c \<Longrightarrow>
        fst (u_send_command c t h s) = Inl (RuntimeError (strip (first_line prt)))"
      by (simp add: u_send_command_fst)
    have 2: "fst (move_to p b s) = Inl (RuntimeError (strip (first_line prt)))"
      if "uid s = Inr nick"
      using assms that port by (rule move_to_send_error)
    have 3: "fst (halt s) = Inl (RuntimeError (strip (first_line prt)))"
      using assms port by (rule halt_send_error)
    note 4 = u_get_info_caught [OF assms port, of c hdr]
    note 5 = u_set_param_caught [OF assms port, of c]
    from a 1 2 3 4 5 show ?thesis by simp
  qed
  have second: ?thesis if a: "\<not> is_ascii (first_line prt)"
  proof -
    have port: "fst (send_command_port c' t' h' prt) = Inl UnicodeDecodeError"
      if "is_ascii c'" for c' t' h'
      using that a by (rule send_command_port_undecodable)
    from port [of c t h] assms
    have 1: "is_ascii c \<Longrightarrow> fst (u_send_command c t h s) = Inl UnicodeDecodeError"
      by (simp add: u_send_command_fst)
    have 2: "fst (move_to p b s) = Inl UnicodeDecodeError" if "uid s = Inr nick"
      using assms that port by (rule move_to_send_error)
    have 3: "fst (halt s) = Inl UnicodeDecodeError"
      using assms port by (rule halt_send_error)
    have 4: "is_ascii c \<Longrightarrow> fst (u_get_info c hdr s) = Inl UnicodeDecodeError"
      using undecodable_passes(1) [OF assms] port by blast
    have 5: "is_ascii c \<Longrightarrow> fst (u_set_param c s) = Inl UnicodeDecodeError"
      using undecodable_passes(2) [OF assms] port by blast
    from a 1 2 3 4 5 show ?thesis by simp
  qed
  show ?thesis
  proof (cases "is_ascii (first_line prt)")
    case True
    show ?thesis
    proof (cases "strip (first_line prt) = ''!''")
      case False
      with True show ?thesis by (rule first)
    next
      case ack: True
      with True show ?thesis by simp
    qed
  next
    case False
    then show ?thesis by (rule second)
  qed
qed

text \<open>C2 as amended, on the device that answers \<open>X\<close> and on the device whose answer
  starts with a byte that is not ASCII.\<close>

theorem bad_acknowledgment_witness:
  "u_serial_port nacked_focuser = Some nacked_port \<and>
   is_ascii (first_line nacked_port) \<and>
   strip (first_line nacked_port) = ''X'' \<and>
   fst (u_send_command ''<F1MA007000>'' ''MOVE'' None nacked_focuser) = Inl (RuntimeError ''X'') \<and>
   fst (move_to 7000 True nacked_focuser) = Inl (RuntimeError ''X'') \<and>
   fst (halt nacked_focuser) = Inl (RuntimeError ''X'') \<and>
   fst (u_get_info ''<F1GETSTATUS>'' ''STATUS1'' nacked_focuser) = Inr None \<and>
   warnings (snd (u_get_info ''<F1GETSTATUS>'' ''STATUS1'' nacked_focuser)) =
     warnings nacked_focuser @ [setting_message ''<F1GETSTATUS>'' ''X''] \<and>
   logger (snd (u_get_info ''<F1GETSTATUS>'' ''STATUS1'' nacked_focuser)) =
     logger nacked_focuser @ [(ERROR, setting_message ''<F1GETSTATUS>'' ''X'')] \<and>
   u_serial_port garbled_focuser = Some garbled_port \<and>
   \<not> is_ascii (first_line garbled_port) \<and>
   fst (move_to 7000 True garbled_focuser) = Inl UnicodeDecodeError \<and>
   fst (halt garbled_focuser) = Inl UnicodeDecodeError \<and>
   fst (u_get_info ''<F1GETSTATUS>'' ''STATUS1'' garbled_focuser) = Inl UnicodeDecodeError"
proof -
  have h1: "u_serial_port nacked_focuser = Some nacked_port" by code_simp
  have h2: "is_ascii (first_line nacked_port)" by code_simp
  have x: "strip (first_line nacked_port) = ''X''" by code_simp
  have u: "uid nacked_focuser = Inr ''Focus1''" by code_simp
  have g1: "u_serial_port garbled_focuser = Some garbled_port" by code_simp
  have g2: "\<not> is_ascii (first_line garbled_port)" by code_simp
  have gu: "uid garbled_focuser = Inr ''Focus1''" by code_simp
  from bad_acknowledgment [OF h1, of "''<F1MA007000>''" "''MOVE''" None "''Focus1''" 7000 True] h2 x u
  have a: "fst (u_send_command ''<F1MA007000>'' ''MOVE'' None nacked_focuser) = Inl (RuntimeError ''X'')"
    and b: "fst (move_to 7000 True nacked_focuser) = Inl (RuntimeError ''X'')"
    and c: "fst (halt nacked_focuser) = Inl (RuntimeError ''X'')"
    by simp_all
  from bad_acknowledgment [OF h1, of "''<F1GETSTATUS>''" _ _ _ _ _ "''STATUS1''"] h2 x
  have d: "fst (u_get_info ''<F1GETSTATUS>'' ''STATUS1'' nacked_focuser) = Inr None"
    and e: "warnings (snd (u_get_info ''<F1GETSTATUS>'' ''STATUS1'' nacked_focuser)) =
     warnings nacked_focuser @ [setting_message ''<F1GETSTATUS>'' ''X'']"
    and f: "logger (snd (u_get_info ''<F1GETSTATUS>'' ''STATUS1'' nacked_focuser)) =
     logger nacked_focuser @ [(ERROR, setting_message ''<F1GETSTATUS>'' ''X'')]"
    by simp_all
  from bad_acknowledgment [OF g1, of "''<F1GETSTATUS>''" _ _ "''Focus1''" 7000 True "''STATUS1''"] g2 gu
  have i: "fst (move_to 7000 True garbled_focuser) = Inl UnicodeDecodeError"
    and j: "fst (halt garbled_focuser) = Inl UnicodeDecodeError"
    and k: "fst (u_get_info ''<F1GETSTATUS>'' ''STATUS1'' garbled_focuser) = Inl UnicodeDecodeError"
    by simp_all
  from h1 h2 x a b c d e f g1 g2 i j k show ?thesis by simp
qed

subsection \<open>Decoding an info block\<close>

text \<open>
  C4 says that every body line is split on the first \<open>=\<close>, and that a line without \<open>=\<close>
  raises a protocol error. The line \<open>Nickname = a=b\<close>, for which the split on the first
  \<open>=\<close> gives the key \<open>Nickname\<close> and the value \<open>a=b\<close>, makes the decoding raise
  \<open>ValueError\<close>: \<open>split('=')\<close> yields three items where two are unpacked. A line without
  \<open>=\<close> raises \<open>ValueError\<close> as well, which is not the \<open>RuntimeError\<close> of the protocol
  and passes through \<open>_get_info\<close>.
\<close>

theorem split_is_on_every_equals_sign:
  "fst (send_command_port ''<F1GETCONFIG>'' ''GET INFO'' (Some ''CONFIG1'')
          (config_port [''Nickname = a=b'', ''END''])) = Inl ValueError \<and>
   spec_key_value ''Nickname = a=b'' = (''Nickname'', ''a=b'') \<and>
   fst (send_command_port ''<F1GETCONFIG>'' ''GET INFO'' (Some ''CONFIG1'')
          (config_port [''Max Pos = 7000'', ''Dev Typ FA'', ''END''])) = Inl ValueError \<and>
   fst (u_get_info ''<F1GETCONFIG>'' ''CONFIG1''
          ((AbstractFocuser_init ''FocusLynx Focuser'' ''FA'' ''/dev/ttyUSB0'')
             \<lparr>u_serial_port := Some (config_port [''Max Pos = 7000'', ''Dev Typ FA'', ''END''])\<rparr>)) =
     Inl ValueError"
  by code_simp

text \<open>
  C4 as amended. The device answers an info command with the acknowledgment, the expected
  header and then its lines. When well-formed body lines are followed by the terminator,
  the result is the record of their pairs, each line split at its one \<open>=\<close> with both sides
  trimmed. When well-formed body lines are followed by a malformed one (no \<open>=\<close>, or more
  than one), the decoding raises \<open>ValueError\<close>, which \<open>_get_info\<close> does not catch; the
  result is the exception alone, so no record of the pairs parsed so far is returned.
\<close>

theorem info_block_decoding:
  assumes "is_ascii c" and "replies p = (ack # hdr # lines) # rs"
    and "is_ascii ack" and "strip ack = ''!''" and "is_ascii hdr" and "strip hdr = h"
    and "\<forall>l\<in>set body. well_formed l"
  shows "(lines = body @ e # rest \<and> is_ascii e \<and> strip e = ''END'' \<longrightarrow>
            fst (send_command_port c ''GET INFO'' (Some h) p) = Inr (Some (record_of body))) \<and>
         (lines = body @ bad # rest \<and> malformed bad \<longrightarrow>
            fst (send_command_port c ''GET INFO'' (Some h) p) = Inl ValueError \<and>
            (u_serial_port s = Some p \<longrightarrow> fst (u_get_info c h s) = Inl ValueError))"
proof -
  let ?p4 = "p\<lparr>written := written p @ [c], in_buffer := lines, replies := rs\<rparr>"
  note sc = send_command_port_info [OF assms(1-6)]
  have good: "fst (send_command_port c ''GET INFO'' (Some h) p) = Inr (Some (record_of body))"
    if l: "lines = body @ e # rest" and e: "is_ascii e" "strip e = ''END''"
  proof (cases body)
    case Nil
    with l e have "read_response ?p4 = (Inr ''END'', ?p4\<lparr>in_buffer := rest\<rparr>)"
      using read_response_Cons [of ?p4 e rest] by simp
    with Nil show ?thesis by (simp add: sc info_loop_END record_of_def)
  next
    case (Cons l0 ls)
    with assms(7) have w: "well_formed l0" "\<forall>x\<in>set ls. well_formed x" by simp_all
    then have "is_ascii l0" by (simp add: well_formed_def)
    with l Cons have rd: "read_response ?p4 = (Inr (strip l0), ?p4\<lparr>in_buffer := ls @ e # rest\<rparr>)"
      using read_response_Cons [of ?p4 l0 "ls @ e # rest"] by simp
    have "fst (info_loop (strip l0) [] (?p4\<lparr>in_buffer := ls @ e # rest\<rparr>)) =
        Inr (record_of body)"
      unfolding record_of_def Cons
      by (rule info_loop_body [OF w e]) simp
    with rd show ?thesis by (simp add: sc wrap_info_fst)
  qed
  have bad: "fst (send_command_port c ''GET INFO'' (Some h) p) = Inl ValueError"
    if l: "lines = body @ bad # rest" and b: "malformed bad"
  proof (cases body)
    case Nil
    from b have "is_ascii bad" by (simp add: malformed_def)
    with l Nil have "read_response ?p4 = (Inr (strip bad), ?p4\<lparr>in_buffer := rest\<rparr>)"
      using read_response_Cons [of ?p4 bad rest] by simp
    with b show ?thesis by (simp add: sc info_loop_malformed)
  next
    case (Cons l0 ls)
    with assms(7) have w: "well_formed l0" "\<forall>x\<in>set ls. well_formed x" by simp_all
    then have "is_ascii l0" by (simp add: well_formed_def)
    with l Cons have rd: "read_response ?p4 = (Inr (strip l0), ?p4\<lparr>in_buffer := ls @ bad # rest\<rparr>)"
      using read_response_Cons [of ?p4 l0 "ls @ bad # rest"] by simp
    have "fst (info_loop (strip l0) [] (?p4\<lparr>in_buffer := ls @ bad # rest\<rparr>)) = Inl ValueError"
      by (rule info_loop_bad_body [OF w b]) simp
    with rd show ?thesis by (simp add: sc wrap_info_fst)
  qed
  have gi: "fst (u_get_info c h s) = Inl ValueError"
    if "fst (send_command_port c ''GET INFO'' (Some h) p) = Inl ValueError"
      and "u_serial_port s = Some p"
  proof -
    obtain x s1 where u: "u_send_command c ''GET INFO'' (Some h) s = (x, s1)"
      by (cases "u_send_command c ''GET INFO'' (Some h) s")
    with that u_send_command_fst [OF that(2), of c "''GET INFO''" "Some h"]
    have "x = Inl ValueError" by simp
    with u show ?thesis by (simp add: u_get_info_def)
  qed
  from good bad gi show ?thesis by blast
qed

text \<open>C4 as amended, on a configuration block of two lines, complete and then followed by
  a line without \<open>=\<close>.\<close>

theorem info_block_decoding_witness:
  "is_ascii ''<F1GETCONFIG>'' \<and>
   well_formed ''Nickname = Focus1'' \<and> well_formed ''Max Pos = 7000'' \<and>
   malformed ''Dev Typ FA'' \<and>
   fst (send_command_port ''<F1GETCONFIG>'' ''GET INFO'' (Some ''CONFIG1'')
          (config_port [''Nickname = Focus1'', ''Max Pos = 7000'', ''END''])) =
     Inr (Some [(''Nickname'', ''Focus1''), (''Max Pos'', ''7000'')]) \<and>
   fst (send_command_port ''<F1GETCONFIG>'' ''GET INFO'' (Some ''CONFIG1'')
          (config_port [''Nickname = Focus1'', ''Max Pos = 7000'', ''Dev Typ FA'', ''END''])) =
     Inl ValueError"
proof -
  have h1: "is_ascii ''<F1GETCONFIG>''" by simp
  have w: "well_formed ''Nickname = Focus1''" "well_formed ''Max Pos = 7000''" by code_simp+
  then have h7: "\<forall>l\<in>set [''Nickname = Focus1'', ''Max Pos = 7000'']. well_formed l" by simp
  have hb: "malformed ''Dev Typ FA''" by code_simp
  have r: "record_of [''Nickname = Focus1'', ''Max Pos = 7000''] =
      [(''Nickname'', ''Focus1''), (''Max Pos'', ''7000'')]" by code_simp
  have a: "fst (send_command_port ''<F1GETCONFIG>'' ''GET INFO'' (Some ''CONFIG1'')
          (config_port [''Nickname = Focus1'', ''Max Pos = 7000'', ''END''])) =
     Inr (Some [(''Nickname'', ''Focus1''), (''Max Pos'', ''7000'')])"
    using info_block_decoding [OF h1, where p = "config_port [''Nickname = Focus1'', ''Max Pos = 7000'', ''END'']"
        and ack = "''!''" and hdr = "''CONFIG1''" and rs = "[]" and h = "''CONFIG1''"
        and lines = "[''Nickname = Focus1'', ''Max Pos = 7000'', ''END'']"
        and body = "[''Nickname = Focus1'', ''Max Pos = 7000'']" and e = "''END''" and rest = "[]"]
      h7 r
    by (simp add: config_port_def strip_def py_isspace_def)
  have b: "fst (send_command_port ''<F1GETCONFIG>'' ''GET INFO'' (Some ''CONFIG1'')
          (config_port [''Nickname = Focus1'', ''Max Pos = 7000'', ''Dev Typ FA'', ''END''])) =
     Inl ValueError"
    using info_block_decoding [OF h1, where p = "config_port [''Nickname = Focus1'', ''Max Pos = 7000'', ''Dev Typ FA'', ''END'']"
        and ack = "''!''" and hdr = "''CONFIG1''" and rs = "[]" and h = "''CONFIG1''"
        and lines = "[''Nickname = Focus1'', ''Max Pos = 7000'', ''Dev Typ FA'', ''END'']"
        and body = "[''Nickname = Focus1'', ''Max Pos = 7000'']" and bad = "''Dev Typ FA''"
        and rest = "[''END'']"]
      h7 hb
    by (simp add: config_port_def strip_def py_isspace_def)
  from h1 w hb a b show ?thesis by blast
qed

end
